theory Spec2Isabelle
  imports Main "HOL-Library.AList"
begin

section \<open>BrowserID local verification: lib/verify.js\<close>

text \<open>
  The development embeds \<^verbatim>\<open>lib/verify.js\<close> of browserid-local-verify. The source
  holds two revisions of the file; the embedding follows the later one (reserved names
  \<^verbatim>\<open>jac\<close>, \<^verbatim>\<open>cdi\<close>, \<^verbatim>\<open>scope\<close>; attribute certificates bound by a digest descriptor in the
  payload), which is the revision the specification describes.

  The token codec (jwcrypto), the hash functions (sjcl), the audience matcher and the
  issuer directory (\<^verbatim>\<open>browserid.lookup\<close>) are collaborators; they are fields of the
  record \<open>env\<close> and every definition takes them as a parameter.
\<close>

subsection \<open>JavaScript values\<close>

text \<open>
  Claim values are what \<^verbatim>\<open>JSON.parse\<close> produces, plus \<^verbatim>\<open>undefined\<close> for an absent
  property. Numbers are integers; strings are lists of 8-bit characters. An object is the
  list of its own properties in insertion order, with distinct names.
\<close>

datatype jsval = JUndefined | JNull | JBool bool | JNum int | JStr string
  | JArr "jsval list" | JObj "(string \<times> jsval) list"

type_synonym claims = "(string \<times> jsval) list"

datatype js_error = JsException

text \<open>\<^verbatim>\<open>!!v\<close>: the values JavaScript treats as true in a condition.\<close>

fun truthy :: "jsval \<Rightarrow> bool" where
  "truthy JUndefined = False"
| "truthy JNull = False"
| "truthy (JBool b) = b"
| "truthy (JNum n) = (n \<noteq> 0)"
| "truthy (JStr s) = (s \<noteq> [])"
| "truthy (JArr xs) = True"
| "truthy (JObj kvs) = True"

text \<open>\<^verbatim>\<open>_.isString\<close>.\<close>

fun isString :: "jsval \<Rightarrow> bool" where
  "isString (JStr s) = True"
| "isString v = False"

text \<open>
  \<^verbatim>\<open>a === b\<close> for two values that were allocated apart (parsed from different tokens, or
  one supplied by the caller and one parsed): primitives are compared by value, and two
  arrays or objects are never the same reference.
\<close>

fun strict_eq :: "jsval \<Rightarrow> jsval \<Rightarrow> bool" where
  "strict_eq (JArr xs) b = False"
| "strict_eq (JObj kvs) b = False"
| "strict_eq a b = (a = b)"

text \<open>\<^verbatim>\<open>typeof v === 'object'\<close>; this holds of \<^verbatim>\<open>null\<close> too.\<close>

fun typeof_object :: "jsval \<Rightarrow> bool" where
  "typeof_object JNull = True"
| "typeof_object (JArr xs) = True"
| "typeof_object (JObj kvs) = True"
| "typeof_object v = False"

text \<open>
  \<open>own c k\<close> is \<^verbatim>\<open>c[k]\<close> (or \<^verbatim>\<open>c.k\<close>) for an own property \<open>k\<close>, and for the fixed names the
  code reads (\<^verbatim>\<open>principal\<close>, \<^verbatim>\<open>email\<close>, \<^verbatim>\<open>sub\<close>, \<^verbatim>\<open>jac\<close>, \<^verbatim>\<open>scope\<close>, \<^verbatim>\<open>cdi\<close>, \<^verbatim>\<open>iss\<close>, \<^verbatim>\<open>alg\<close>,
  \<^verbatim>\<open>dig\<close>), none of which a built-in prototype defines. \<open>dot v k\<close> is the same read on any
  value that is not \<^verbatim>\<open>null\<close> or \<^verbatim>\<open>undefined\<close>: a primitive or an array has no such property.
\<close>

definition own :: "claims \<Rightarrow> string \<Rightarrow> jsval" where
  "own c k = (case map_of c k of None \<Rightarrow> JUndefined | Some v \<Rightarrow> v)"

fun dot :: "jsval \<Rightarrow> string \<Rightarrow> jsval" where
  "dot (JObj kvs) k = own kvs k"
| "dot v k = JUndefined"

text \<open>
  Reads with a computed key see the prototype chain. These are the members of
  \<^verbatim>\<open>Object.prototype\<close> (ECMAScript 5.1, and the legacy accessors of V8); each is a function
  or an object, hence true in a condition.
\<close>

definition object_prototype_names :: "string list" where
  "object_prototype_names =
     [''constructor'', ''toString'', ''toLocaleString'', ''valueOf'', ''hasOwnProperty'',
      ''isPrototypeOf'', ''propertyIsEnumerable'', ''__proto__'', ''__defineGetter__'',
      ''__defineSetter__'', ''__lookupGetter__'', ''__lookupSetter__'']"

text \<open>\<^verbatim>\<open>!!o[key]\<close> for an object \<open>o\<close> created by \<^verbatim>\<open>{}\<close>.\<close>

definition truthy_at :: "claims \<Rightarrow> string \<Rightarrow> bool" where
  "truthy_at ob key =
     (case map_of ob key of
        Some v \<Rightarrow> truthy v
      | None \<Rightarrow> List.member object_prototype_names key)"

text \<open>
  \<^verbatim>\<open>o[key] = v\<close> for an object created by \<^verbatim>\<open>{}\<close>: an existing property keeps its place, a
  new one is appended. Assigning to \<^verbatim>\<open>__proto__\<close> creates no own property (it runs the
  accessor of \<^verbatim>\<open>Object.prototype\<close>; the change of prototype it makes for an object value
  is not modelled).
\<close>

definition set_at :: "claims \<Rightarrow> string \<Rightarrow> jsval \<Rightarrow> claims" where
  "set_at ob key v = (if key = ''__proto__'' then ob else AList.update key v ob)"

text \<open>Decimal rendering of array indices and numbers.\<close>

definition digit :: "nat \<Rightarrow> char" where
  "digit d = char_of (48 + d)"

fun show_nat :: "nat \<Rightarrow> string" where
  "show_nat n = (if n < 10 then [digit n] else show_nat (n div 10) @ [digit (n mod 10)])"

definition show_int :: "int \<Rightarrow> string" where
  "show_int i = (if i < 0 then CHR ''-'' # show_nat (nat (- i)) else show_nat (nat i))"

text \<open>
  \<^verbatim>\<open>String(v)\<close>, which is also the conversion of a computed property key and of a regular
  expression's subject. \<open>None\<close> is a thrown TypeError: an object whose own \<^verbatim>\<open>toString\<close>
  property is a JSON value cannot be converted. An array is joined with commas, \<^verbatim>\<open>null\<close>
  and \<^verbatim>\<open>undefined\<close> elements rendering as the empty string. A number is rendered in
  decimal digits, as JavaScript renders an integer below \<^verbatim>\<open>1e21\<close>.
\<close>

fun to_string :: "jsval \<Rightarrow> string option" and join_elems :: "jsval list \<Rightarrow> string option" where
  "to_string JUndefined = Some ''undefined''"
| "to_string JNull = Some ''null''"
| "to_string (JBool b) = Some (if b then ''true'' else ''false'')"
| "to_string (JNum n) = Some (show_int n)"
| "to_string (JStr s) = Some s"
| "to_string (JArr xs) = join_elems xs"
| "to_string (JObj kvs) =
     (if List.member (map fst kvs) ''toString'' then None else Some ''[object Object]'')"
| "join_elems [] = Some []"
| "join_elems (x # xs) =
     (case (if x = JUndefined then Some [] else if x = JNull then Some [] else to_string x) of
        None \<Rightarrow> None
      | Some s \<Rightarrow>
          (if xs = [] then Some s
           else (case join_elems xs of None \<Rightarrow> None | Some t \<Rightarrow> Some (s @ '','' @ t))))"

text \<open>
  \<^verbatim>\<open>Object.keys(v)\<close> with the values, for a value with \<^verbatim>\<open>typeof v === 'object'\<close> other than
  \<^verbatim>\<open>null\<close>: the own properties of an object, the indices of an array.
\<close>

fun entries :: "jsval \<Rightarrow> (string \<times> jsval) list" where
  "entries (JObj kvs) = kvs"
| "entries (JArr xs) = zip (map show_nat [0..<length xs]) xs"
| "entries v = []"

subsection \<open>Extra claims\<close>

definition reservedClaimNames :: "string list" where
  "reservedClaimNames =
     [''iss'', ''sub'', ''aud'', ''exp'', ''nbf'', ''iat'', ''jti'', ''public-key'',
      ''principal'', ''jac'', ''cdi'', ''scope'', ''scope_description'']"

text \<open>
  The first loop of \<^verbatim>\<open>extractExtraClaims\<close>: every own key of the claims that is not
  reserved is copied.
\<close>

definition copyTopLevel :: "claims \<Rightarrow> claims" where
  "copyTopLevel c =
     fold (\<lambda>key extraClaims.
             if List.member reservedClaimNames key then extraClaims
             else set_at extraClaims key (own c key))
          (map fst c) []"

text \<open>
  The second loop: a key of \<^verbatim>\<open>claims.principal\<close> is overlaid when it is not reserved, is not
  \<^verbatim>\<open>email\<close>, and \<^verbatim>\<open>!extraClaims[key]\<close> holds.
\<close>

definition overlayPrincipal :: "jsval \<Rightarrow> claims \<Rightarrow> claims" where
  "overlayPrincipal pr extra =
     fold (\<lambda>key extraClaims.
             if List.member reservedClaimNames key then extraClaims
             else if key = ''email'' then extraClaims
             else if truthy_at extraClaims key then extraClaims
             else set_at extraClaims key (own (entries pr) key))
          (map fst (entries pr)) extra"

text \<open>
  \<^verbatim>\<open>extractExtraClaims(claims)\<close>. \<open>None\<close> as argument is a missing payload (\<^verbatim>\<open>null\<close> or
  \<^verbatim>\<open>undefined\<close>), \<open>Inr None\<close> the result \<^verbatim>\<open>null\<close>. A \<^verbatim>\<open>principal\<close> that is \<^verbatim>\<open>null\<close> passes the
  \<^verbatim>\<open>typeof\<close> test and \<^verbatim>\<open>Object.keys(null)\<close> throws.
\<close>

definition extractExtraClaims :: "claims option \<Rightarrow> js_error + claims option" where
  "extractExtraClaims cl =
     (case cl of
        None \<Rightarrow> Inr None
      | Some c \<Rightarrow>
          (let extraClaims = copyTopLevel c; pr = own c ''principal'' in
           if pr = JNull then Inl JsException
           else
             (let extraClaims' =
                    (if typeof_object pr then overlayPrincipal pr extraClaims
                     else extraClaims)
              in Inr (if extraClaims' = [] then None else Some extraClaims'))))"

subsection \<open>Collaborators and arguments\<close>

text \<open>
  \<^verbatim>\<open>args\<close>, the caller's options. \<open>now = None\<close> is an absent \<^verbatim>\<open>args.now\<close>; a given one is a
  \<^verbatim>\<open>Date\<close> (an object, true in a condition), kept as its time value.
\<close>

record args =
  assertion :: jsval
  audience :: jsval
  now :: "int option"
  trustedIssuers :: "jsval list option"
  fallback :: jsval
  aggregateAttrCertClaims_opt :: bool

text \<open>What \<^verbatim>\<open>browserid.lookup\<close> passes to its callback on success.\<close>

record details =
  publicKey :: jsval
  authoritativeDomain :: jsval

text \<open>\<^verbatim>\<open>assertionParams\<close> of jwcrypto, and the result of \<^verbatim>\<open>jwcrypto.cert.unbundle\<close>.\<close>

record aparams =
  ap_audience :: jsval
  ap_expiresAt :: int

record cert_bundle =
  certs :: "jsval list"
  signedAssertion :: jsval

text \<open>
  \<^verbatim>\<open>jwcrypto.cert.verifyBundle\<close> as the conversation it holds with its two callbacks:
  \<open>NeedKey issuer next\<close> asks the first callback for the key of \<open>issuer\<close> and continues
  with the key it is given; \<open>Finished r\<close> calls the second callback, with an error or with
  \<^verbatim>\<open>certParamsArray\<close> (one entry per certificate), the payload and \<^verbatim>\<open>assertionParams\<close>.
\<close>

datatype vb = NeedKey jsval "jsval \<Rightarrow> vb"
  | Finished "string + (claims list \<times> claims \<times> aparams)"

text \<open>
  A collaborator that reports through \<^verbatim>\<open>callback(err, value)\<close> returns a sum: \<open>Inl err\<close> is a
  call with an error (true in a condition) and no value, \<open>Inr v\<close> a call without error.
  A collaborator that throws returns \<open>None\<close>. \<open>clock\<close> is the value of \<^verbatim>\<open>new Date()\<close>.
  \<open>lookup a domain principalDomain\<close> is \<^verbatim>\<open>browserid.lookup\<close> on the arguments \<open>a\<close>
  extended with \<^verbatim>\<open>domain\<close> and \<^verbatim>\<open>principalDomain\<close>. \<open>format_object\<close> is how \<^verbatim>\<open>util.format\<close>
  renders an array or an object under \<^verbatim>\<open>%s\<close> (\<^verbatim>\<open>String(v)\<close> in early versions of Node,
  \<^verbatim>\<open>util.inspect\<close> in later ones).
\<close>

record env =
  cert_unbundle :: "jsval \<Rightarrow> cert_bundle option"
  extractComponents :: "jsval \<Rightarrow> claims option"
  verifyBundle :: "jsval \<Rightarrow> int \<Rightarrow> vb"
  assertion_verify :: "jsval \<Rightarrow> jsval \<Rightarrow> int \<Rightarrow> string + claims"
  compareAudiences :: "jsval \<Rightarrow> jsval \<Rightarrow> string option"
  lookup :: "args \<Rightarrow> jsval \<Rightarrow> string option \<Rightarrow> string + details"
  sha256 :: "jsval \<Rightarrow> string"
  sha512 :: "jsval \<Rightarrow> string"
  format_object :: "jsval \<Rightarrow> string"
  clock :: int

text \<open>The object handed to the caller, \<^verbatim>\<open>obj\<close> in \<^verbatim>\<open>verify\<close>. \<open>None\<close> is an absent field.
  \<^verbatim>\<open>obj.attributeCertClaims\<close> is an array that the code uses as a dictionary from scope
  to claims; the field holds its own properties.\<close>

record result =
  r_audience :: jsval
  r_expires :: int
  r_issuer :: jsval
  r_email :: "jsval option"
  r_idpClaims :: "claims option"
  r_userClaims :: "claims option"
  r_attributeCertClaims :: "(string \<times> claims) list option"

text \<open>
  What a run of \<^verbatim>\<open>verify\<close> does that can be observed, in order: an exception thrown to the
  caller, a directory lookup (domain, principal domain), an exception inside a callback
  (which ends the run), the completion of the attribute certificate at an index, the
  entry into \<^verbatim>\<open>verifyIssuer\<close>, and a call of the caller's callback \<^verbatim>\<open>cb\<close> with an error or
  with the result as it is at that moment.
\<close>

datatype event = Thrown string | Lookup jsval "string option" | Uncaught | BranchDone nat
  | TrustResolution | Callback "string + result"

subsection \<open>Digest binding\<close>

text \<open>
  \<^verbatim>\<open>DIGEST_ALGS[alg]\<close>: the two own entries, or a member inherited from
  \<^verbatim>\<open>Object.prototype\<close>, or \<^verbatim>\<open>undefined\<close>.
\<close>

datatype digest_entry = Alg "jsval \<Rightarrow> string" | Inherited string | NoEntry

definition DIGEST_ALGS :: "env \<Rightarrow> string \<Rightarrow> digest_entry" where
  "DIGEST_ALGS E alg =
     (if alg = ''S256'' then Alg (sha256 E)
      else if alg = ''S512'' then Alg (sha512 E)
      else if List.member object_prototype_names alg then Inherited alg
      else NoEntry)"

text \<open>
  \<^verbatim>\<open>digest(data) === dig\<close> when \<^verbatim>\<open>digest\<close> is an inherited member, called as a plain function
  (its receiver is \<^verbatim>\<open>undefined\<close>) on a primitive \<open>data\<close>: \<^verbatim>\<open>toString\<close> returns
  \<^verbatim>\<open>"[object Undefined]"\<close>; \<^verbatim>\<open>constructor\<close> returns a wrapper object and \<^verbatim>\<open>isPrototypeOf\<close>
  returns \<^verbatim>\<open>false\<close>, neither equal to a string; the others throw (they convert the receiver
  to an object, and \<^verbatim>\<open>__proto__\<close> is not a function).
\<close>

definition inherited_matches :: "string \<Rightarrow> jsval \<Rightarrow> js_error + bool" where
  "inherited_matches name dig =
     (if name = ''toString'' then Inr (dig = JStr ''[object Undefined]'')
      else if name = ''constructor'' then Inr False
      else if name = ''isPrototypeOf'' then Inr False
      else Inl JsException)"

text \<open>\<^verbatim>\<open>verifyDigest(data, certDigestInfo)\<close>; the value returned is \<^verbatim>\<open>false\<close>, \<^verbatim>\<open>true\<close> or
  \<^verbatim>\<open>undefined\<close>.\<close>

definition verifyDigest :: "env \<Rightarrow> jsval \<Rightarrow> jsval \<Rightarrow> js_error + jsval" where
  "verifyDigest E data certDigestInfo =
     (if \<not> truthy certDigestInfo then Inr (JBool False)
      else if \<not> isString (dot certDigestInfo ''alg'') then Inr (JBool False)
      else if \<not> isString (dot certDigestInfo ''dig'') then Inr (JBool False)
      else
        (case dot certDigestInfo ''alg'' of
           JStr alg \<Rightarrow>
             (case DIGEST_ALGS E alg of
                NoEntry \<Rightarrow> Inr JUndefined
              | Alg digest \<Rightarrow> Inr (JBool (JStr (digest data) = dot certDigestInfo ''dig''))
              | Inherited name \<Rightarrow>
                  (case inherited_matches name (dot certDigestInfo ''dig'') of
                     Inl e \<Rightarrow> Inl e
                   | Inr b \<Rightarrow> Inr (JBool b)))
         | _ \<Rightarrow> Inr (JBool False)))"

subsection \<open>Attribute certificates\<close>

text \<open>
  \<^verbatim>\<open>verifyAttributeCert\<close>: the value is what the callback \<^verbatim>\<open>cb\<close> is called with, \<open>Inr None\<close>
  for \<^verbatim>\<open>cb(null)\<close>. When jwcrypto reports an error the payload is \<^verbatim>\<open>undefined\<close>. An exception
  in \<^verbatim>\<open>verifyDigest\<close> leaves \<^verbatim>\<open>cb\<close> uncalled.
\<close>

definition verifyAttributeCert ::
  "env \<Rightarrow> jsval \<Rightarrow> int \<Rightarrow> jsval \<Rightarrow> jsval \<Rightarrow> jsval \<Rightarrow> js_error + claims option" where
  "verifyAttributeCert E jwt now' publicKey' certData certIssuer =
     (case assertion_verify E jwt publicKey' now' of
        Inl err \<Rightarrow> Inr None
      | Inr payload \<Rightarrow>
          if \<not> truthy (own payload ''scope'') then Inr None
          else
            (case verifyDigest E certData (own payload ''cdi'') of
               Inl e \<Rightarrow> Inl e
             | Inr ok \<Rightarrow>
                 if \<not> truthy ok then Inr None
                 else if truthy (own payload ''iss'') \<and>
                         \<not> strict_eq (own payload ''iss'') certIssuer then Inr None
                 else Inr (Some payload)))"

subsection \<open>Trust resolution\<close>

text \<open>\<^verbatim>\<open>args.trustedIssuers && args.trustedIssuers.indexOf(ultimateIssuer) !== -1\<close>.\<close>

definition explicitly_trusted :: "args \<Rightarrow> jsval \<Rightarrow> bool" where
  "explicitly_trusted a ultimateIssuer =
     (case trustedIssuers a of
        None \<Rightarrow> False
      | Some ts \<Rightarrow> list_ex (\<lambda>t. strict_eq t ultimateIssuer) ts)"

text \<open>\<^verbatim>\<open>%s\<close> of \<^verbatim>\<open>util.format\<close>: \<^verbatim>\<open>String(v)\<close> for a primitive value.\<close>

definition format_s :: "env \<Rightarrow> jsval \<Rightarrow> string" where
  "format_s E v =
     (case v of
        JArr xs \<Rightarrow> format_object E v
      | JObj kvs \<Rightarrow> format_object E v
      | _ \<Rightarrow> (case to_string v of Some s \<Rightarrow> s | None \<Rightarrow> format_object E v))"

definition quoted :: "string \<Rightarrow> string" where
  "quoted s = CHR 0x27 # s @ [CHR 0x27]"

definition untrusted_issuer_message :: "env \<Rightarrow> jsval \<Rightarrow> jsval \<Rightarrow> string" where
  "untrusted_issuer_message E expectedIssuer ultimateIssuer =
     ''untrusted issuer, expected '' @ quoted (format_s E expectedIssuer) @ '', got '' @
     quoted (format_s E ultimateIssuer)"

definition no_email_message :: string where
  "no_email_message =
     ''untrusted assertion, doesn'' @ [CHR 0x27] @
     ''t contain an email, and issuer is untrusted ''"

text \<open>
  The issuer that the directory names for the principal's domain: the authoritative
  domain when the lookup succeeds and names one, \<^verbatim>\<open>args.fallback\<close> otherwise.
\<close>

definition expected_issuer :: "args \<Rightarrow> string + details \<Rightarrow> jsval" where
  "expected_issuer a r =
     (case r of
        Inl err \<Rightarrow> fallback a
      | Inr d \<Rightarrow> if truthy (authoritativeDomain d) then authoritativeDomain d else fallback a)"

text \<open>
  \<^verbatim>\<open>verifyIssuer\<close>. \<^verbatim>\<open>principalDomain\<close> is \<^verbatim>\<open>null\<close> (\<open>None\<close>) or a string, true in a
  condition when not empty. The lookup's callback is run where the lookup is made.
\<close>

definition verifyIssuer ::
  "env \<Rightarrow> args \<Rightarrow> string option \<Rightarrow> jsval \<Rightarrow> result \<Rightarrow> event list" where
  "verifyIssuer E a principalDomain ultimateIssuer obj =
     TrustResolution #
     (if explicitly_trusted a ultimateIssuer then [Callback (Inr obj)]
      else
        (case principalDomain of
           None \<Rightarrow> [Callback (Inl no_email_message)]
         | Some d \<Rightarrow>
             if d = [] then [Callback (Inl no_email_message)]
             else
               (let expectedIssuer = expected_issuer a (lookup E a (JStr d) (Some d)) in
                [Lookup (JStr d) (Some d),
                 if strict_eq expectedIssuer ultimateIssuer then Callback (Inr obj)
                 else Callback (Inl (untrusted_issuer_message E expectedIssuer
                                       ultimateIssuer))])))"

subsection \<open>The principal's domain\<close>

text \<open>
  \<^verbatim>\<open>(/\@(.*)$/).exec(email)[1].toLowerCase()\<close>. The match starts at the first \<^verbatim>\<open>@\<close> that no
  line terminator follows, since \<^verbatim>\<open>.\<close> does not match one and \<^verbatim>\<open>$\<close> is the end of the input.
  \<open>None\<close> is the exception thrown when nothing matches or the subject cannot be
  converted to a string. Letters are lowered within ASCII.
\<close>

definition line_terminator :: "char \<Rightarrow> bool" where
  "line_terminator c = (c = CHR 0x0A \<or> c = CHR 0x0D)"

fun after_at :: "string \<Rightarrow> string option" where
  "after_at [] = None"
| "after_at (c # cs) =
     (if c = CHR ''@'' \<and> \<not> list_ex line_terminator cs then Some cs else after_at cs)"

definition lower_char :: "char \<Rightarrow> char" where
  "lower_char c =
     (if (65::nat) \<le> of_char c \<and> of_char c \<le> (90::nat) then char_of (of_char c + (32::nat))
      else c)"

definition toLowerCase :: "string \<Rightarrow> string" where
  "toLowerCase s = map lower_char s"

definition extractDomainFromEmail :: "jsval \<Rightarrow> string option" where
  "extractDomainFromEmail email =
     (case to_string email of
        None \<Rightarrow> None
      | Some s \<Rightarrow> map_option toLowerCase (after_at s))"

text \<open>
  The \<^verbatim>\<open>try\<close> block of \<^verbatim>\<open>verify\<close>. It assigns \<^verbatim>\<open>leafCert\<close>, \<^verbatim>\<open>idpClaims\<close>, \<^verbatim>\<open>userClaims\<close> and
  \<^verbatim>\<open>principalDomain\<close> in this order; an exception leaves the later ones unassigned
  (\<^verbatim>\<open>principalDomain\<close> stays \<^verbatim>\<open>null\<close>).
\<close>

record unpacked =
  u_leafCert :: jsval
  u_idpClaims :: "claims option"
  u_userClaims :: "claims option"
  u_principalDomain :: "string option"

definition principal_email :: "claims \<Rightarrow> jsval" where
  "principal_email idp =
     (let email = (if truthy (own idp ''principal'') then dot (own idp ''principal'') ''email''
                   else JNull)
      in if \<not> truthy email then own idp ''sub'' else email)"

definition unpack :: "env \<Rightarrow> jsval \<Rightarrow> unpacked" where
  "unpack E asn =
     (case cert_unbundle E asn of
        None \<Rightarrow> \<lparr>u_leafCert = JUndefined, u_idpClaims = None, u_userClaims = None,
                  u_principalDomain = None\<rparr>
      | Some b \<Rightarrow>
          (let leaf = (if certs b = [] then JUndefined else last (certs b)) in
           case extractComponents E leaf of
             None \<Rightarrow> \<lparr>u_leafCert = leaf, u_idpClaims = None, u_userClaims = None,
                       u_principalDomain = None\<rparr>
           | Some idp \<Rightarrow>
               (case extractComponents E (signedAssertion b) of
                  None \<Rightarrow> \<lparr>u_leafCert = leaf, u_idpClaims = Some idp, u_userClaims = None,
                            u_principalDomain = None\<rparr>
                | Some user \<Rightarrow>
                    \<lparr>u_leafCert = leaf, u_idpClaims = Some idp, u_userClaims = Some user,
                     u_principalDomain = extractDomainFromEmail (principal_email idp)\<rparr>)))"

subsection \<open>Claims of attribute certificates in the result\<close>

text \<open>
  \<^verbatim>\<open>obj.attributeCertClaims\<close> is created by \<^verbatim>\<open>[]\<close>, so a read with a computed key also sees
  \<^verbatim>\<open>length\<close> and the members of \<^verbatim>\<open>Array.prototype\<close> (those of ECMAScript 5.1, then those
  that later editions added) and of \<^verbatim>\<open>Object.prototype\<close>. The array's length is not zero
  exactly when an own key is an array index.
\<close>

definition array_prototype_names :: "string list" where
  "array_prototype_names =
     [''concat'', ''join'', ''pop'', ''push'', ''reverse'', ''shift'', ''slice'', ''sort'',
      ''splice'', ''unshift'', ''indexOf'', ''lastIndexOf'', ''every'', ''some'', ''forEach'',
      ''map'', ''filter'', ''reduce'', ''reduceRight'',
      ''copyWithin'', ''entries'', ''fill'', ''find'', ''findIndex'', ''keys'', ''values'',
      ''includes'', ''flat'', ''flatMap'', ''at'', ''findLast'', ''findLastIndex'',
      ''toReversed'', ''toSorted'', ''toSpliced'', ''with'']"

definition is_digit :: "char \<Rightarrow> bool" where
  "is_digit c = ((48::nat) \<le> of_char c \<and> of_char c \<le> (57::nat))"

definition digits_value :: "string \<Rightarrow> nat" where
  "digits_value s = foldl (\<lambda>n c. 10 * n + (of_char c - 48)) 0 s"

definition is_index :: "string \<Rightarrow> bool" where
  "is_index key =
     (key \<noteq> [] \<and> list_all is_digit key \<and> (length key = 1 \<or> hd key \<noteq> CHR ''0'') \<and>
      digits_value key < 4294967295)"

text \<open>\<^verbatim>\<open>!!obj.attributeCertClaims[key]\<close>; a stored value is an object.\<close>

definition arr_truthy_at :: "(string \<times> claims) list \<Rightarrow> string \<Rightarrow> bool" where
  "arr_truthy_at st key =
     (case map_of st key of
        Some v \<Rightarrow> True
      | None \<Rightarrow>
          if key = ''length'' then list_ex is_index (map fst st)
          else List.member (array_prototype_names @ object_prototype_names) key)"

text \<open>
  \<^verbatim>\<open>obj.attributeCertClaims[key] = extClaims\<close>. \<open>None\<close> is an exception: an object is not a
  valid array length.
\<close>

definition arr_set_at ::
  "(string \<times> claims) list \<Rightarrow> string \<Rightarrow> claims \<Rightarrow> (string \<times> claims) list option" where
  "arr_set_at st key v =
     (if key = ''length'' then None
      else if key = ''__proto__'' then Some st
      else Some (AList.update key v st))"

text \<open>\<^verbatim>\<open>_.extend(dest, source)\<close>.\<close>

definition extend :: "claims \<Rightarrow> claims \<Rightarrow> claims" where
  "extend dest source = fold (\<lambda>key d. set_at d key (own source key)) (map fst source) dest"

text \<open>
  \<^verbatim>\<open>target[key] = v\<close> where \<open>target\<close> is a claim value: an object takes the property, a
  primitive ignores the assignment. (An array would take it as well; that case is left
  as it is.)
\<close>

fun assign :: "jsval \<Rightarrow> string \<Rightarrow> jsval \<Rightarrow> jsval" where
  "assign (JObj kvs) key v = JObj (set_at kvs key v)"
| "assign target key v = target"

text \<open>\<^verbatim>\<open>x || {}\<close>.\<close>

definition or_empty :: "jsval \<Rightarrow> jsval" where
  "or_empty x = (if truthy x then x else JObj [])"

text \<open>
  \<^verbatim>\<open>aggregateAttrCertClaims(obj, scope, attrCert, claims)\<close>; \<open>key\<close> is \<open>scope\<close> as a
  property key. \<^verbatim>\<open>_.each(claims, ...)\<close> is taken to visit the names of the claims (underscore
  visits indices instead when the claims have a numeric \<^verbatim>\<open>length\<close>).
\<close>

definition aggregateAttrCertClaims ::
  "result \<Rightarrow> jsval \<Rightarrow> string \<Rightarrow> jsval \<Rightarrow> claims \<Rightarrow> result" where
  "aggregateAttrCertClaims obj scope key attrCert cl =
     (let idp1 = extend (case r_idpClaims obj of None \<Rightarrow> [] | Some i \<Rightarrow> i) cl;
          idp2 = set_at idp1 ''_claim_names'' (or_empty (own idp1 ''_claim_names''));
          idp3 = set_at idp2 ''_claim_names''
                   (fold (\<lambda>attr names. assign names attr scope) (map fst cl)
                      (own idp2 ''_claim_names''));
          idp4 = set_at idp3 ''_claim_sources'' (or_empty (own idp3 ''_claim_sources''));
          idp5 = set_at idp4 ''_claim_sources''
                   (assign (own idp4 ''_claim_sources'') key (JObj [(''JWT'', attrCert)]))
      in obj\<lparr>r_idpClaims := Some idp5\<rparr>)"

subsection \<open>The orchestrator\<close>

text \<open>The variables of \<^verbatim>\<open>verify\<close> that its callbacks close over.\<close>

record ctx =
  c_leafCert :: jsval
  c_idpClaims :: "claims option"
  c_userClaims :: "claims option"
  c_principalDomain :: "string option"
  c_now :: int
  c_ultimateIssuer :: jsval
  c_ultimatePublicKey :: jsval

definition collision_message :: string where
  "collision_message = ''multiple attribute certificates with same scope''"

text \<open>
  The callback that \<^verbatim>\<open>verify\<close> gives \<^verbatim>\<open>verifyAttributeCert\<close> for the certificate at \<open>index\<close>
  of \<^verbatim>\<open>userClaims.jac\<close>, run on the current \<^verbatim>\<open>obj\<close> when that certificate's verification
  completes. The value is the events and the \<^verbatim>\<open>obj\<close> left behind; \<open>None\<close> after an
  exception. The \<^verbatim>\<open>return cb(...)\<close> of a scope collision skips the test of the index.
\<close>

definition attrCertDone ::
  "env \<Rightarrow> args \<Rightarrow> ctx \<Rightarrow> jsval list \<Rightarrow> nat \<Rightarrow> result \<Rightarrow> event list \<times> result option" where
  "attrCertDone E a c jac index obj =
     (let proceed = (\<lambda>obj'.
            (if Suc index = length jac
             then verifyIssuer E a (c_principalDomain c) (c_ultimateIssuer c) obj'
             else [], Some obj'))
      in
      case verifyAttributeCert E (jac ! index) (c_now c) (c_ultimatePublicKey c)
             (c_leafCert c) (c_ultimateIssuer c) of
        Inl e \<Rightarrow> ([Uncaught], None)
      | Inr attributeCertClaims \<Rightarrow>
          (case extractExtraClaims attributeCertClaims of
             Inl e \<Rightarrow> ([Uncaught], None)
           | Inr None \<Rightarrow> proceed obj
           | Inr (Some extClaims) \<Rightarrow>
               (case attributeCertClaims of
                  None \<Rightarrow> proceed obj
                | Some payload \<Rightarrow>
                    (case r_attributeCertClaims obj of
                       None \<Rightarrow> ([Uncaught], None)
                     | Some st \<Rightarrow>
                         (case to_string (own payload ''scope'') of
                            None \<Rightarrow> ([Uncaught], None)
                          | Some key \<Rightarrow>
                              if arr_truthy_at st key
                              then ([Callback (Inl collision_message)], Some obj)
                              else if aggregateAttrCertClaims_opt a
                              then proceed (aggregateAttrCertClaims obj (own payload ''scope'')
                                              key (jac ! index) extClaims)
                              else
                                (case arr_set_at st key extClaims of
                                   None \<Rightarrow> ([Uncaught], None)
                                 | Some st' \<Rightarrow>
                                     proceed (obj\<lparr>r_attributeCertClaims := Some st'\<rparr>)))))))"

text \<open>
  \<^verbatim>\<open>_.each(userClaims.jac, ...)\<close> starts the verification of every certificate; \<open>sched\<close> is
  the order in which they complete (indices into \<^verbatim>\<open>jac\<close>). An exception in a callback
  ends the run.
\<close>

fun run_branches ::
  "env \<Rightarrow> args \<Rightarrow> ctx \<Rightarrow> jsval list \<Rightarrow> nat list \<Rightarrow> result \<Rightarrow> event list" where
  "run_branches E a c jac [] obj = []"
| "run_branches E a c jac (index # rest) obj =
     (if index < length jac then
        BranchDone index #
        (case attrCertDone E a c jac index obj of
           (evs, None) \<Rightarrow> evs
         | (evs, Some obj') \<Rightarrow> evs @ run_branches E a c jac rest obj')
      else run_branches E a c jac rest obj)"

definition chaining_message :: string where
  "chaining_message = ''certificate chaining is not yet allowed''"

text \<open>The second callback of \<^verbatim>\<open>verifyBundle\<close>, called with \<open>r\<close>.\<close>

definition finish ::
  "env \<Rightarrow> args \<Rightarrow> nat list \<Rightarrow> ctx \<Rightarrow> string + (claims list \<times> claims \<times> aparams) \<Rightarrow> event list"
  where
  "finish E a sched c r =
     (case r of
        Inl err \<Rightarrow> [Callback (Inl err)]
      | Inr (certParamsArray, payload, assertionParams) \<Rightarrow>
          if length certParamsArray > 1 then [Callback (Inl chaining_message)]
          else
            (case compareAudiences E (ap_audience assertionParams) (audience a) of
               Some err \<Rightarrow> [Callback (Inl (''audience mismatch: '' @ err))]
             | None \<Rightarrow>
                 (let obj0 = \<lparr>r_audience = ap_audience assertionParams,
                              r_expires = ap_expiresAt assertionParams,
                              r_issuer = c_ultimateIssuer c,
                              r_email =
                                (case c_idpClaims c of
                                   None \<Rightarrow> None
                                 | Some idp \<Rightarrow>
                                     if truthy (own idp ''principal'') \<and>
                                        truthy (dot (own idp ''principal'') ''email'')
                                     then Some (dot (own idp ''principal'') ''email'')
                                     else None),
                              r_idpClaims = None, r_userClaims = None,
                              r_attributeCertClaims = None\<rparr>
                  in
                  case extractExtraClaims (c_idpClaims c) of
                    Inl e \<Rightarrow> [Uncaught]
                  | Inr ext1 \<Rightarrow>
                      (case extractExtraClaims (c_userClaims c) of
                         Inl e \<Rightarrow> [Uncaught]
                       | Inr ext2 \<Rightarrow>
                           (let obj = obj0\<lparr>r_idpClaims := ext1, r_userClaims := ext2\<rparr> in
                            case c_userClaims c of
                              None \<Rightarrow> [Uncaught]
                            | Some user \<Rightarrow>
                                (case own user ''jac'' of
                                   JArr jac \<Rightarrow>
                                     run_branches E a c jac sched
                                       (obj\<lparr>r_attributeCertClaims := Some []\<rparr>)
                                 | _ \<Rightarrow>
                                     verifyIssuer E a (c_principalDomain c)
                                       (c_ultimateIssuer c) obj))))))"

text \<open>
  \<^verbatim>\<open>verifyBundle\<close> at work with the two callbacks of \<^verbatim>\<open>verify\<close>. The first records the
  issuer, looks its key up and hands it on; when the lookup fails it calls \<^verbatim>\<open>cb(err)\<close> and
  never continues.
\<close>

primrec chain :: "vb \<Rightarrow> env \<Rightarrow> args \<Rightarrow> nat list \<Rightarrow> ctx \<Rightarrow> event list" where
  "chain (NeedKey issuer next) E a sched c =
     Lookup issuer (c_principalDomain c) #
     (case lookup E a issuer (c_principalDomain c) of
        Inl err \<Rightarrow> [Callback (Inl err)]
      | Inr d \<Rightarrow>
          chain (next (publicKey d)) E a sched
            (c\<lparr>c_ultimateIssuer := issuer, c_ultimatePublicKey := publicKey d\<rparr>))"
| "chain (Finished r) E a sched c = finish E a sched c r"

text \<open>
  \<^verbatim>\<open>verify(browserid, args, cb)\<close>: the trace of the run in which the attribute certificates
  complete in the order \<open>sched\<close>. (The test of \<^verbatim>\<open>arguments.length\<close> has no counterpart: the
  function is always applied to its three arguments.)
\<close>

definition verify :: "env \<Rightarrow> args \<Rightarrow> nat list \<Rightarrow> event list" where
  "verify E a sched =
     (if \<not> truthy (assertion a) then [Thrown ''missing required 'assertion' argument'']
      else if \<not> truthy (audience a) then [Thrown ''missing required 'audience' argument'']
      else
        (let u = unpack E (assertion a);
             now' = (case now a of Some t \<Rightarrow> t | None \<Rightarrow> clock E)
         in chain (verifyBundle E (assertion a) now') E a sched
              \<lparr>c_leafCert = u_leafCert u, c_idpClaims = u_idpClaims u,
               c_userClaims = u_userClaims u, c_principalDomain = u_principalDomain u,
               c_now = now', c_ultimateIssuer = JUndefined,
               c_ultimatePublicKey = JUndefined\<rparr>))"

subsection \<open>Reading a trace\<close>

text \<open>The results that a run hands to the caller's callback, in order.\<close>

fun delivered :: "event list \<Rightarrow> result list" where
  "delivered [] = []"
| "delivered (Callback (Inr obj) # evs) = obj # delivered evs"
| "delivered (e # evs) = delivered evs"

subsection \<open>Example collaborators\<close>

text \<open>
  A small world to run the verifier in. One identity provider, \<^verbatim>\<open>idp.example\<close>, whose key
  is \<^verbatim>\<open>PK\<close>; every digest is \<^verbatim>\<open>H\<close>. The attribute certificates are named by their tokens:
  \<^verbatim>\<open>ac0\<close> and \<^verbatim>\<open>ac1\<close> carry scope \<^verbatim>\<open>s\<close>, \<^verbatim>\<open>ac2\<close> scope \<^verbatim>\<open>t\<close>, all three bound to the leaf
  certificate; \<^verbatim>\<open>acx\<close> carries scope \<^verbatim>\<open>s\<close> and a digest of another certificate; \<^verbatim>\<open>acp\<close>
  carries scope \<^verbatim>\<open>p\<close> and a descriptor that names no digest algorithm and no digest; any
  other token has a bad signature.
\<close>

definition ex_cdi :: "string \<Rightarrow> jsval" where
  "ex_cdi dig = JObj [(''alg'', JStr ''S256''), (''dig'', JStr dig)]"

definition ex_attr_cert :: "jsval \<Rightarrow> string + claims" where
  "ex_attr_cert jwt =
     (if jwt = JStr ''ac0''
        then Inr [(''scope'', JStr ''s''), (''cdi'', ex_cdi ''H''), (''role'', JStr ''admin'')]
      else if jwt = JStr ''ac1''
        then Inr [(''scope'', JStr ''s''), (''cdi'', ex_cdi ''H''), (''role'', JStr ''user'')]
      else if jwt = JStr ''ac2''
        then Inr [(''scope'', JStr ''t''), (''cdi'', ex_cdi ''H''), (''team'', JStr ''x'')]
      else if jwt = JStr ''acx''
        then Inr [(''scope'', JStr ''s''), (''cdi'', ex_cdi ''G''), (''role'', JStr ''root'')]
      else if jwt = JStr ''acp''
        then Inr [(''scope'', JStr ''p''),
                  (''cdi'', JObj [(''alg'', JStr ''toString''),
                                  (''dig'', JStr ''[object Undefined]'')]),
                  (''role'', JStr ''root'')]
      else Inl ''bad signature'')"

definition ex_idp_email :: claims where
  "ex_idp_email =
     [(''iss'', JStr ''idp.example''),
      (''principal'', JObj [(''email'', JStr ''bob@example.org'')])]"

definition ex_idp_sub :: claims where
  "ex_idp_sub = [(''iss'', JStr ''idp.example''), (''sub'', JStr ''bob@Example.org'')]"

definition ex_user :: "jsval list option \<Rightarrow> claims" where
  "ex_user jac =
     (case jac of
        None \<Rightarrow> [(''aud'', JStr ''https://rp.example'')]
      | Some xs \<Rightarrow> [(''aud'', JStr ''https://rp.example''), (''jac'', JArr xs)])"

definition ex_aparams :: aparams where
  "ex_aparams = \<lparr>ap_audience = JStr ''https://rp.example'', ap_expiresAt = 1000\<rparr>"

definition ex_details :: details where
  "ex_details = \<lparr>publicKey = JStr ''PK'', authoritativeDomain = JUndefined\<rparr>"

text \<open>
  The collaborators: the bundle holds the certificates \<open>cs\<close>, the last of which has the
  payload \<open>idp\<close>; the assertion carries \<open>jac\<close>; \<^verbatim>\<open>verifyBundle\<close> asks for the key of
  \<^verbatim>\<open>idp.example\<close> and then reports \<open>outcome\<close>; the directory answers \<open>lk domain\<close>.
\<close>

definition ex_env ::
  "jsval list \<Rightarrow> claims \<Rightarrow> jsval list option \<Rightarrow>
   (string + (claims list \<times> claims \<times> aparams)) \<Rightarrow> (jsval \<Rightarrow> string + details) \<Rightarrow> env" where
  "ex_env cs idp jac outcome lk =
     \<lparr>cert_unbundle = (\<lambda>asn. Some \<lparr>certs = cs, signedAssertion = JStr ''assn''\<rparr>),
      extractComponents =
        (\<lambda>t. if t = JStr ''cert'' then Some idp
              else if t = JStr ''assn'' then Some (ex_user jac)
              else None),
      verifyBundle = (\<lambda>asn t. NeedKey (JStr ''idp.example'') (\<lambda>key. Finished outcome)),
      assertion_verify = (\<lambda>jwt key t. ex_attr_cert jwt),
      compareAudiences = (\<lambda>asserted expected. None),
      lookup = (\<lambda>a domain pd. lk domain),
      sha256 = (\<lambda>data. ''H''),
      sha512 = (\<lambda>data. ''H5''),
      format_object = (\<lambda>v. ''[object Object]''),
      clock = 0\<rparr>"

text \<open>An assertion with one certificate that verifies, carrying \<open>jac\<close>.\<close>

definition ex_single ::
  "claims \<Rightarrow> jsval list option \<Rightarrow> (jsval \<Rightarrow> string + details) \<Rightarrow> env" where
  "ex_single idp jac lk =
     ex_env [JStr ''cert''] idp jac (Inr ([idp], ex_user jac, ex_aparams)) lk"

definition ex_args :: "jsval list option \<Rightarrow> jsval \<Rightarrow> args" where
  "ex_args trusted fb =
     \<lparr>assertion = JStr ''bundle'', audience = JStr ''https://rp.example'', now = Some 500,
      trustedIssuers = trusted, fallback = fb, aggregateAttrCertClaims_opt = False\<rparr>"

definition ex_result :: "jsval option \<Rightarrow> (string \<times> claims) list option \<Rightarrow> result" where
  "ex_result em st =
     \<lparr>r_audience = JStr ''https://rp.example'', r_expires = 1000,
      r_issuer = JStr ''idp.example'', r_email = em, r_idpClaims = None,
      r_userClaims = None, r_attributeCertClaims = st\<rparr>"

text \<open>The variables of a run on the leaf certificate \<^verbatim>\<open>cert\<close> of \<^verbatim>\<open>bob@example.org\<close>, once
  the key of \<^verbatim>\<open>idp.example\<close> has been found.\<close>

definition ex_ctx :: "jsval list \<Rightarrow> ctx" where
  "ex_ctx jac =
     \<lparr>c_leafCert = JStr ''cert'', c_idpClaims = Some ex_idp_email,
      c_userClaims = Some (ex_user (Some jac)), c_principalDomain = Some ''example.org'',
      c_now = 500, c_ultimateIssuer = JStr ''idp.example'',
      c_ultimatePublicKey = JStr ''PK''\<rparr>"

text \<open>A directory that knows the key of every domain and names no authoritative domain,
  and one that knows only \<^verbatim>\<open>idp.example\<close>.\<close>

definition ex_lookup_ok :: "jsval \<Rightarrow> string + details" where
  "ex_lookup_ok domain = Inr ex_details"

definition ex_lookup_idp_only :: "jsval \<Rightarrow> string + details" where
  "ex_lookup_idp_only domain =
     (if domain = JStr ''idp.example'' then Inr ex_details else Inl ''lookup failed'')"

section \<open>Properties\<close>

subsection \<open>Evaluation rules for the examples\<close>

lemmas ex_defs =
  ex_cdi_def ex_attr_cert_def ex_idp_email_def ex_idp_sub_def ex_user_def ex_aparams_def
  ex_details_def ex_env_def ex_single_def ex_args_def ex_result_def ex_ctx_def
  ex_lookup_ok_def ex_lookup_idp_only_def

lemmas run_defs =
  verify_def unpack_def finish_def attrCertDone_def verifyAttributeCert_def verifyDigest_def
  DIGEST_ALGS_def inherited_matches_def extractExtraClaims_def copyTopLevel_def
  overlayPrincipal_def own_def set_at_def truthy_at_def reservedClaimNames_def
  object_prototype_names_def array_prototype_names_def arr_truthy_at_def arr_set_at_def
  verifyIssuer_def explicitly_trusted_def expected_issuer_def principal_email_def
  untrusted_issuer_message_def format_s_def
  extractDomainFromEmail_def toLowerCase_def lower_char_def line_terminator_def

subsection \<open>The digest binder\<close>

text \<open>
  C8. The claim: \<^verbatim>\<open>verifyDigest\<close> returns false unless the descriptor names one of the
  supported digest algorithms, has a string \<^verbatim>\<open>dig\<close>, and the digest of the bytes under that
  algorithm equals \<^verbatim>\<open>dig\<close> exactly. The code looks the algorithm up with
  \<^verbatim>\<open>DIGEST_ALGS[certDigestInfo.alg]\<close>, which also finds the members that the table inherits
  from \<^verbatim>\<open>Object.prototype\<close>. For the descriptor with \<^verbatim>\<open>alg = "toString"\<close> and
  \<^verbatim>\<open>dig = "[object Undefined]"\<close> it returns \<^verbatim>\<open>true\<close>, whatever the bytes and whatever the two
  hash functions compute.
\<close>

theorem verifyDigest_inherited_toString:
  "verifyDigest E data (JObj [(''alg'', JStr ''toString''), (''dig'', JStr ''[object Undefined]'')])
     = Inr (JBool True)"
  by (simp add: verifyDigest_def own_def DIGEST_ALGS_def object_prototype_names_def
      inherited_matches_def)

text \<open>
  Apart from the inherited names, the lookup finds the two algorithms of the table and
  nothing else: for an \<^verbatim>\<open>alg\<close> that \<^verbatim>\<open>Object.prototype\<close> does not define, \<^verbatim>\<open>verifyDigest\<close>
  returns \<^verbatim>\<open>true\<close> exactly when \<^verbatim>\<open>alg\<close> is \<^verbatim>\<open>S256\<close> or \<^verbatim>\<open>S512\<close> and the digest of the data under
  it is the string \<^verbatim>\<open>dig\<close>, character for character; it never throws.
\<close>

theorem verifyDigest_supported_algorithms:
  "\<not> List.member object_prototype_names alg \<longrightarrow>
     (verifyDigest E data (JObj [(''alg'', JStr alg), (''dig'', JStr dig)]) = Inr (JBool True)
        \<longleftrightarrow> (alg = ''S256'' \<and> sha256 E data = dig) \<or> (alg = ''S512'' \<and> sha512 E data = dig))
     \<and> (\<exists>r. verifyDigest E data (JObj [(''alg'', JStr alg), (''dig'', JStr dig)]) = Inr r)"
  by (auto simp: verifyDigest_def own_def DIGEST_ALGS_def)

theorem verifyDigest_supported_algorithms_witness:
  "\<not> List.member object_prototype_names ''S256''
   \<and> verifyDigest (ex_single ex_idp_email None ex_lookup_ok) (JStr ''cert'')
        (JObj [(''alg'', JStr ''S256''), (''dig'', JStr ''H'')]) = Inr (JBool True)
   \<and> verifyDigest (ex_single ex_idp_email None ex_lookup_ok) (JStr ''cert'')
        (JObj [(''alg'', JStr ''S256''), (''dig'', JStr ''H5'')]) = Inr (JBool False)
   \<and> \<not> List.member object_prototype_names ''MD5''
   \<and> verifyDigest (ex_single ex_idp_email None ex_lookup_ok) (JStr ''cert'')
        (JObj [(''alg'', JStr ''MD5''), (''dig'', JStr ''H'')]) = Inr JUndefined"
  using
    verifyDigest_supported_algorithms
      [of "''S256''" "ex_single ex_idp_email None ex_lookup_ok" "JStr ''cert''" "''H''"]
    verifyDigest_supported_algorithms
      [of "''MD5''" "ex_single ex_idp_email None ex_lookup_ok" "JStr ''cert''" "''H''"]
  by (simp add: ex_defs run_defs)

subsection \<open>The claim extractor\<close>

text \<open>
  C6. The claim: a field of \<^verbatim>\<open>principal\<close> is overlaid only when no claim of the same name is
  among the top-level extra claims, and never overrides one. The code tests
  \<^verbatim>\<open>!extraClaims[key]\<close>, the truth value of the top-level claim and not its presence: for the
  claims \<^verbatim>\<open>{"admin": false, "principal": {"email": "a@b.c", "admin": true}}\<close> the extra claim
  \<^verbatim>\<open>admin\<close> of the result is \<^verbatim>\<open>true\<close>, the principal's value.
\<close>

theorem extractExtraClaims_overrides_false_claim:
  "extractExtraClaims
     (Some [(''admin'', JBool False),
            (''principal'', JObj [(''email'', JStr ''a@b.c''), (''admin'', JBool True)])])
     = Inr (Some [(''admin'', JBool True)])"
  by (simp add: extractExtraClaims_def copyTopLevel_def overlayPrincipal_def set_at_def own_def
      truthy_at_def reservedClaimNames_def)

lemma copy_email:
  "map_of (fold (\<lambda>key extraClaims.
             if List.member reservedClaimNames key then extraClaims
             else set_at extraClaims key (own c key)) ks acc) ''email''
   = (if ''email'' \<in> set ks then Some (own c ''email'') else map_of acc ''email'')"
  by (induction ks arbitrary: acc)
     (auto simp: set_at_def update_conv' reservedClaimNames_def)

lemma overlay_email:
  "map_of (fold (\<lambda>key extraClaims.
             if List.member reservedClaimNames key then extraClaims
             else if key = ''email'' then extraClaims
             else if truthy_at extraClaims key then extraClaims
             else set_at extraClaims key (own pe key)) ks acc) ''email''
   = map_of acc ''email''"
  by (induction ks arbitrary: acc) (auto simp: set_at_def update_conv')

lemma own_map_of: "k \<in> fst ` set c \<Longrightarrow> Some (own c k) = map_of c k"
  by (cases "map_of c k") (auto simp: own_def map_of_eq_None_iff)

lemma copyTopLevel_email: "map_of (copyTopLevel c) ''email'' = map_of c ''email''"
proof -
  have "map_of (copyTopLevel c) ''email''
        = (if ''email'' \<in> set (map fst c) then Some (own c ''email'') else map_of [] ''email'')"
    unfolding copyTopLevel_def by (rule copy_email)
  also have "\<dots> = map_of c ''email''"
  proof (cases "map_of c ''email''")
    case None
    then have "''email'' \<notin> fst ` set c" by (simp add: map_of_eq_None_iff)
    then show ?thesis using None by simp
  next
    case (Some v)
    then have "''email'' \<in> fst ` set c" by (metis map_of_eq_None_iff option.distinct(1))
    then show ?thesis using own_map_of[of "''email''" c] by simp
  qed
  finally show ?thesis .
qed

lemma overlayPrincipal_email:
  "map_of (overlayPrincipal pe acc) ''email'' = map_of acc ''email''"
  unfolding overlayPrincipal_def by (rule overlay_email)

text \<open>
  The part of the overlay rule that concerns \<^verbatim>\<open>email\<close> holds: the \<^verbatim>\<open>email\<close> of the extra
  claims is the top-level claim \<^verbatim>\<open>email\<close>, if there is one, and never the principal's.
\<close>

theorem principal_email_not_extra:
  "extractExtraClaims (Some c) = Inr (Some ex) \<longrightarrow> map_of ex ''email'' = map_of c ''email''"
  by (auto simp: extractExtraClaims_def Let_def overlayPrincipal_email copyTopLevel_email
      split: if_splits)

theorem principal_email_not_extra_witness:
  "extractExtraClaims
     (Some [(''admin'', JBool True),
            (''principal'', JObj [(''email'', JStr ''a@b.c''), (''team'', JStr ''x'')])])
     = Inr (Some [(''admin'', JBool True), (''team'', JStr ''x'')])
   \<and> map_of [(''admin'', JBool True), (''team'', JStr ''x'')] ''email'' = None"
  using principal_email_not_extra
    [of "[(''admin'', JBool True),
          (''principal'', JObj [(''email'', JStr ''a@b.c''), (''team'', JStr ''x'')])]"
        "[(''admin'', JBool True), (''team'', JStr ''x'')]"]
  by (simp add: run_defs)

subsection \<open>The attribute-certificate verifier\<close>

lemma verifyDigest_truthy:
  "verifyDigest E data cdi = Inr ok \<Longrightarrow> truthy ok \<Longrightarrow> ok = JBool True"
  by (auto simp: verifyDigest_def split: if_splits jsval.splits digest_entry.splits sum.splits)

text \<open>
  C1. The claim: \<^verbatim>\<open>verifyAttributeCert\<close> yields \<^verbatim>\<open>null\<close> unless, among other things, the
  payload's digest descriptor verifies against the bytes of the primary certificate, and the
  claims of a certificate whose binding does not match those bytes never reach the result.
  The code takes the verdict of \<^verbatim>\<open>verifyDigest\<close> for the binding, and \<^verbatim>\<open>verifyDigest\<close> accepts
  the descriptor with \<^verbatim>\<open>alg = "toString"\<close> and \<^verbatim>\<open>dig = "[object Undefined]"\<close> for any bytes (the
  defect of C8). The certificate \<^verbatim>\<open>acp\<close> carries that descriptor, which is the digest of the
  leaf certificate under neither algorithm: \<^verbatim>\<open>verifyAttributeCert\<close> calls back with its payload,
  and \<^verbatim>\<open>verify\<close> delivers its claim \<^verbatim>\<open>role\<close> under the scope \<^verbatim>\<open>p\<close>.
\<close>

theorem unbound_attribute_cert_accepted:
  "assertion_verify (ex_single ex_idp_email (Some [JStr ''acp'']) ex_lookup_ok)
      (JStr ''acp'') (JStr ''PK'') 500
     = Inr [(''scope'', JStr ''p''),
            (''cdi'', JObj [(''alg'', JStr ''toString''), (''dig'', JStr ''[object Undefined]'')]),
            (''role'', JStr ''root'')]
   \<and> sha256 (ex_single ex_idp_email (Some [JStr ''acp'']) ex_lookup_ok) (JStr ''cert'')
       \<noteq> ''[object Undefined]''
   \<and> sha512 (ex_single ex_idp_email (Some [JStr ''acp'']) ex_lookup_ok) (JStr ''cert'')
       \<noteq> ''[object Undefined]''
   \<and> verifyAttributeCert (ex_single ex_idp_email (Some [JStr ''acp'']) ex_lookup_ok)
        (JStr ''acp'') 500 (JStr ''PK'') (JStr ''cert'') (JStr ''idp.example'')
     = Inr (Some [(''scope'', JStr ''p''),
                  (''cdi'', JObj [(''alg'', JStr ''toString''),
                                  (''dig'', JStr ''[object Undefined]'')]),
                  (''role'', JStr ''root'')])
   \<and> verify (ex_single ex_idp_email (Some [JStr ''acp'']) ex_lookup_ok)
        (ex_args (Some [JStr ''idp.example'']) JUndefined) [0]
     = [Lookup (JStr ''idp.example'') (Some ''example.org''), BranchDone 0, TrustResolution,
        Callback (Inr (ex_result (Some (JStr ''bob@example.org''))
                         (Some [(''p'', [(''role'', JStr ''root'')])])))]"
  by (simp add: ex_defs run_defs)

text \<open>
  What holds is the gate relative to \<^verbatim>\<open>verifyDigest\<close>. \<^verbatim>\<open>verifyAttributeCert\<close> calls back with the
  payload exactly when jwcrypto verifies the token under the given key at the given time,
  the payload's \<^verbatim>\<open>scope\<close> is true in a condition, \<^verbatim>\<open>verifyDigest\<close> returns \<^verbatim>\<open>true\<close> for the
  payload's \<^verbatim>\<open>cdi\<close> and the certificate bytes, and an \<^verbatim>\<open>iss\<close> that is true in a condition
  equals the certificate's issuer; otherwise it calls back with \<^verbatim>\<open>null\<close> or, when
  \<^verbatim>\<open>verifyDigest\<close> throws, not at all. When \<^verbatim>\<open>verifyDigest\<close> returns a false value for the
  descriptor of the certificate at \<open>index\<close>, the completion of that certificate leaves
  \<^verbatim>\<open>obj\<close> as it was: the run goes on from the same \<^verbatim>\<open>obj\<close>, and trust resolution, if this was
  the last index, is handed the same \<^verbatim>\<open>obj\<close>.
\<close>

theorem verifyAttributeCert_null_unless_bound:
  "(verifyAttributeCert E jwt t pk certData certIssuer = Inr (Some payload) \<longleftrightarrow>
      assertion_verify E jwt pk t = Inr payload \<and>
      truthy (own payload ''scope'') \<and>
      verifyDigest E certData (own payload ''cdi'') = Inr (JBool True) \<and>
      (truthy (own payload ''iss'') \<longrightarrow> strict_eq (own payload ''iss'') certIssuer))
   \<and>
   (index < length jac \<and>
    assertion_verify E (jac ! index) (c_ultimatePublicKey c) (c_now c) = Inr payload' \<and>
    verifyDigest E (c_leafCert c) (own payload' ''cdi'') = Inr ok \<and> \<not> truthy ok \<longrightarrow>
      verifyAttributeCert E (jac ! index) (c_now c) (c_ultimatePublicKey c) (c_leafCert c)
        (c_ultimateIssuer c) = Inr None \<and>
      run_branches E a c jac (index # rest) obj =
        BranchDone index #
        (if Suc index = length jac
         then verifyIssuer E a (c_principalDomain c) (c_ultimateIssuer c) obj else []) @
        run_branches E a c jac rest obj)"
proof (rule conjI)
  show "verifyAttributeCert E jwt t pk certData certIssuer = Inr (Some payload) \<longleftrightarrow>
      assertion_verify E jwt pk t = Inr payload \<and>
      truthy (own payload ''scope'') \<and>
      verifyDigest E certData (own payload ''cdi'') = Inr (JBool True) \<and>
      (truthy (own payload ''iss'') \<longrightarrow> strict_eq (own payload ''iss'') certIssuer)"
    by (auto simp: verifyAttributeCert_def split: sum.splits if_splits dest: verifyDigest_truthy)
next
  show "index < length jac \<and>
    assertion_verify E (jac ! index) (c_ultimatePublicKey c) (c_now c) = Inr payload' \<and>
    verifyDigest E (c_leafCert c) (own payload' ''cdi'') = Inr ok \<and> \<not> truthy ok \<longrightarrow>
      verifyAttributeCert E (jac ! index) (c_now c) (c_ultimatePublicKey c) (c_leafCert c)
        (c_ultimateIssuer c) = Inr None \<and>
      run_branches E a c jac (index # rest) obj =
        BranchDone index #
        (if Suc index = length jac
         then verifyIssuer E a (c_principalDomain c) (c_ultimateIssuer c) obj else []) @
        run_branches E a c jac rest obj"
    by (simp add: attrCertDone_def verifyAttributeCert_def extractExtraClaims_def)
qed

text \<open>
  The certificate \<^verbatim>\<open>ac2\<close> is accepted; \<^verbatim>\<open>acx\<close>, whose digest is of another certificate, is
  not, and the result of the run holds the claims of \<^verbatim>\<open>ac2\<close> only.
\<close>

theorem verifyAttributeCert_null_unless_bound_witness:
  "verifyAttributeCert (ex_single ex_idp_email (Some [JStr ''acx'', JStr ''ac2'']) ex_lookup_ok)
      (JStr ''ac2'') 500 (JStr ''PK'') (JStr ''cert'') (JStr ''idp.example'')
     = Inr (Some [(''scope'', JStr ''t''), (''cdi'', ex_cdi ''H''), (''team'', JStr ''x'')])
   \<and> verifyDigest (ex_single ex_idp_email (Some [JStr ''acx'', JStr ''ac2'']) ex_lookup_ok)
        (JStr ''cert'') (ex_cdi ''H'') = Inr (JBool True)
   \<and> (0::nat) < length [JStr ''acx'', JStr ''ac2'']
   \<and> assertion_verify (ex_single ex_idp_email (Some [JStr ''acx'', JStr ''ac2'']) ex_lookup_ok)
        (JStr ''acx'') (JStr ''PK'') 500
     = Inr [(''scope'', JStr ''s''), (''cdi'', ex_cdi ''G''), (''role'', JStr ''root'')]
   \<and> verifyDigest (ex_single ex_idp_email (Some [JStr ''acx'', JStr ''ac2'']) ex_lookup_ok)
        (JStr ''cert'') (ex_cdi ''G'') = Inr (JBool False)
   \<and> \<not> truthy (JBool False)
   \<and> run_branches (ex_single ex_idp_email (Some [JStr ''acx'', JStr ''ac2'']) ex_lookup_ok)
        (ex_args (Some [JStr ''idp.example'']) JUndefined) (ex_ctx [JStr ''acx'', JStr ''ac2''])
        [JStr ''acx'', JStr ''ac2''] [0, 1] (ex_result None (Some []))
     = [BranchDone 0, BranchDone 1, TrustResolution,
        Callback (Inr (ex_result None (Some [(''t'', [(''team'', JStr ''x'')])])))]"
  using verifyAttributeCert_null_unless_bound
    [of "ex_single ex_idp_email (Some [JStr ''acx'', JStr ''ac2'']) ex_lookup_ok"
        "JStr ''ac2''" 500 "JStr ''PK''" "JStr ''cert''" "JStr ''idp.example''"
        "[(''scope'', JStr ''t''), (''cdi'', ex_cdi ''H''), (''team'', JStr ''x'')]"
        0 "[JStr ''acx'', JStr ''ac2'']" "ex_ctx [JStr ''acx'', JStr ''ac2'']"
        "[(''scope'', JStr ''s''), (''cdi'', ex_cdi ''G''), (''role'', JStr ''root'')]"
        "JBool False" "ex_args (Some [JStr ''idp.example'']) JUndefined" "[1]"
        "ex_result None (Some [])"]
  by (simp add: ex_defs run_defs)

subsection \<open>Trust resolution\<close>

text \<open>
  C4. \<^verbatim>\<open>verifyIssuer\<close> decides in this order. An issuer found in \<^verbatim>\<open>args.trustedIssuers\<close> is
  accepted at once, with no lookup. Otherwise, with a principal domain (a string that is not
  empty), the domain is looked up once; the expected issuer is the authoritative domain when
  the lookup succeeds and names one, \<^verbatim>\<open>args.fallback\<close> otherwise; the result is delivered when
  the expected issuer \<^verbatim>\<open>===\<close> the ultimate issuer, and otherwise the error that names both.
  Otherwise the error is that the assertion has no email and its issuer is not trusted.
\<close>

theorem verifyIssuer_decision_order:
  "(explicitly_trusted a u \<longrightarrow>
      verifyIssuer E a pd u obj = [TrustResolution, Callback (Inr obj)])
   \<and>
   (\<not> explicitly_trusted a u \<and> pd = Some d \<and> d \<noteq> [] \<longrightarrow>
      verifyIssuer E a pd u obj =
        [TrustResolution, Lookup (JStr d) (Some d),
         if strict_eq (expected_issuer a (lookup E a (JStr d) (Some d))) u
         then Callback (Inr obj)
         else Callback (Inl (untrusted_issuer_message E
                               (expected_issuer a (lookup E a (JStr d) (Some d))) u))])
   \<and>
   (\<not> explicitly_trusted a u \<and> (pd = None \<or> pd = Some []) \<longrightarrow>
      verifyIssuer E a pd u obj = [TrustResolution, Callback (Inl no_email_message)])
   \<and>
   (explicitly_trusted a u \<longleftrightarrow>
      (\<exists>ts t. trustedIssuers a = Some ts \<and> t \<in> set ts \<and> strict_eq t u))
   \<and>
   (truthy (authoritativeDomain det) \<longrightarrow> expected_issuer a (Inr det) = authoritativeDomain det)
   \<and>
   (\<not> truthy (authoritativeDomain det) \<longrightarrow> expected_issuer a (Inr det) = fallback a)
   \<and>
   expected_issuer a (Inl err) = fallback a
   \<and>
   untrusted_issuer_message E (JStr x) (JStr y) =
     ''untrusted issuer, expected '' @ quoted x @ '', got '' @ quoted y"
proof -
  have msg: "untrusted_issuer_message E (JStr x) (JStr y) =
     ''untrusted issuer, expected '' @ quoted x @ '', got '' @ quoted y"
    by (simp add: untrusted_issuer_message_def format_s_def)
  show ?thesis
    unfolding msg
    by (auto simp: verifyIssuer_def expected_issuer_def explicitly_trusted_def list_ex_iff
        split: option.splits)
qed

text \<open>
  A trusted issuer without an email; an issuer that the directory does not name for the
  principal's domain; an untrusted issuer without an email.
\<close>

theorem verifyIssuer_decision_order_witness:
  "explicitly_trusted (ex_args (Some [JStr ''idp.example'']) JUndefined) (JStr ''idp.example'')
   \<and> verifyIssuer (ex_single ex_idp_email None ex_lookup_ok)
        (ex_args (Some [JStr ''idp.example'']) JUndefined) None (JStr ''idp.example'')
        (ex_result None None)
     = [TrustResolution, Callback (Inr (ex_result None None))]
   \<and> \<not> explicitly_trusted (ex_args None JUndefined) (JStr ''idp.example'')
   \<and> verifyIssuer
        (ex_single ex_idp_email None
           (\<lambda>domain. Inr \<lparr>publicKey = JStr ''PK'', authoritativeDomain = JStr ''login.example''\<rparr>))
        (ex_args None JUndefined) (Some ''example.org'') (JStr ''idp.example'')
        (ex_result None None)
     = [TrustResolution, Lookup (JStr ''example.org'') (Some ''example.org''),
        Callback (Inl (''untrusted issuer, expected '' @ quoted ''login.example'' @
                       '', got '' @ quoted ''idp.example''))]
   \<and> verifyIssuer (ex_single ex_idp_email None ex_lookup_ok) (ex_args None JUndefined) None
        (JStr ''idp.example'') (ex_result None None)
     = [TrustResolution, Callback (Inl no_email_message)]"
  using
    verifyIssuer_decision_order
      [of "ex_args (Some [JStr ''idp.example'']) JUndefined" "JStr ''idp.example''"
          "ex_single ex_idp_email None ex_lookup_ok" None "ex_result None None"]
    verifyIssuer_decision_order
      [of "ex_args None JUndefined" "JStr ''idp.example''"
          "ex_single ex_idp_email None
             (\<lambda>domain. Inr \<lparr>publicKey = JStr ''PK'', authoritativeDomain = JStr ''login.example''\<rparr>)"
          "Some ''example.org''" "ex_result None None" "''example.org''"
          "\<lparr>publicKey = JStr ''PK'', authoritativeDomain = JStr ''login.example''\<rparr>"]
    verifyIssuer_decision_order
      [of "ex_args None JUndefined" "JStr ''idp.example''"
          "ex_single ex_idp_email None ex_lookup_ok" None "ex_result None None"]
  by (simp add: ex_defs explicitly_trusted_def expected_issuer_def format_s_def
      untrusted_issuer_message_def)

subsection \<open>The certificate chain\<close>

text \<open>
  C5. The claim: every bundle whose chain holds more than one certificate fails with the
  chaining error, whether or not the signatures are valid. The code tests the error of
  \<^verbatim>\<open>verifyBundle\<close> first: a bundle of two certificates whose signature check fails makes
  \<^verbatim>\<open>verify\<close> fail with that error, not with the chaining error.
\<close>

theorem chain_too_long_counterexample:
  "map_option (\<lambda>b. length (certs b))
     (cert_unbundle (ex_env [JStr ''root'', JStr ''cert''] ex_idp_email None
        (Inl ''signature mismatch'') ex_lookup_ok) (JStr ''bundle'')) = Some 2
   \<and> verify (ex_env [JStr ''root'', JStr ''cert''] ex_idp_email None
        (Inl ''signature mismatch'') ex_lookup_ok) (ex_args None JUndefined) []
     = [Lookup (JStr ''idp.example'') (Some ''example.org''),
        Callback (Inl ''signature mismatch'')]
   \<and> ''signature mismatch'' \<noteq> chaining_message"
  by (simp add: ex_defs run_defs chaining_message_def)

text \<open>
  C5, amended. When \<^verbatim>\<open>verifyBundle\<close> reports no error and more than one certificate, the
  callback gets the chaining error and nothing else happens: no audience comparison, no
  claims, no trust resolution. When it reports an error, the callback gets that error. The
  last two parts say the same of a run of \<^verbatim>\<open>verify\<close> in which \<^verbatim>\<open>verifyBundle\<close> asks for one key,
  as jwcrypto does.
\<close>

theorem chain_too_long_after_verification:
  "(length certParamsArray > 1 \<longrightarrow>
      finish E a sched c (Inr (certParamsArray, payload, assertionParams))
        = [Callback (Inl chaining_message)])
   \<and> finish E a sched c (Inl err) = [Callback (Inl err)]
   \<and> (truthy (assertion a) \<and> truthy (audience a) \<and>
       verifyBundle E (assertion a) (case now a of Some t \<Rightarrow> t | None \<Rightarrow> clock E)
         = NeedKey issuer next \<and>
       lookup E a issuer (u_principalDomain (unpack E (assertion a))) = Inr d \<and>
       next (publicKey d) = Finished (Inr (certParamsArray, payload, assertionParams)) \<and>
       length certParamsArray > 1 \<longrightarrow>
         verify E a sched
           = [Lookup issuer (u_principalDomain (unpack E (assertion a))),
              Callback (Inl chaining_message)])
   \<and> (truthy (assertion a) \<and> truthy (audience a) \<and>
       verifyBundle E (assertion a) (case now a of Some t \<Rightarrow> t | None \<Rightarrow> clock E)
         = NeedKey issuer next \<and>
       lookup E a issuer (u_principalDomain (unpack E (assertion a))) = Inr d \<and>
       next (publicKey d) = Finished (Inl err) \<longrightarrow>
         verify E a sched
           = [Lookup issuer (u_principalDomain (unpack E (assertion a))), Callback (Inl err)])"
  by (simp add: finish_def verify_def Let_def)

text \<open>A bundle of two certificates that verifies.\<close>

theorem chain_too_long_after_verification_witness:
  "length [ex_idp_email, ex_idp_email] > 1
   \<and> truthy (assertion (ex_args None JUndefined)) \<and> truthy (audience (ex_args None JUndefined))
   \<and> lookup (ex_env [JStr ''root'', JStr ''cert''] ex_idp_email None
         (Inr ([ex_idp_email, ex_idp_email], ex_user None, ex_aparams)) ex_lookup_ok)
         (ex_args None JUndefined) (JStr ''idp.example'') (Some ''example.org'') = Inr ex_details
   \<and> verify (ex_env [JStr ''root'', JStr ''cert''] ex_idp_email None
         (Inr ([ex_idp_email, ex_idp_email], ex_user None, ex_aparams)) ex_lookup_ok)
        (ex_args None JUndefined) []
     = [Lookup (JStr ''idp.example'') (Some ''example.org''), Callback (Inl chaining_message)]"
  using chain_too_long_after_verification
    [of "[ex_idp_email, ex_idp_email]"
        "ex_env [JStr ''root'', JStr ''cert''] ex_idp_email None
           (Inr ([ex_idp_email, ex_idp_email], ex_user None, ex_aparams)) ex_lookup_ok"
        "ex_args None JUndefined" "[]" _ "ex_user None" ex_aparams _ "JStr ''idp.example''"
        "\<lambda>key. Finished (Inr ([ex_idp_email, ex_idp_email], ex_user None, ex_aparams))"
        ex_details]
  by (simp add: ex_defs run_defs)

subsection \<open>Failed lookups\<close>

text \<open>
  C7. The claim: a failed issuer or authoritative-domain lookup ends the verification with
  an error, and nothing stands in for the failed lookup. In \<^verbatim>\<open>verifyIssuer\<close> a failed
  lookup of the principal's domain makes \<^verbatim>\<open>args.fallback\<close> the expected issuer: with the
  fallback \<^verbatim>\<open>idp.example\<close> the run below delivers a result although the directory does not
  answer for \<^verbatim>\<open>example.org\<close>.
\<close>

theorem failed_lookup_counterexample:
  "lookup (ex_single ex_idp_email None ex_lookup_idp_only) (ex_args None (JStr ''idp.example''))
      (JStr ''example.org'') (Some ''example.org'') = Inl ''lookup failed''
   \<and> verify (ex_single ex_idp_email None ex_lookup_idp_only)
        (ex_args None (JStr ''idp.example'')) []
     = [Lookup (JStr ''idp.example'') (Some ''example.org''), TrustResolution,
        Lookup (JStr ''example.org'') (Some ''example.org''),
        Callback (Inr (ex_result (Some (JStr ''bob@example.org'')) None))]"
  by (simp add: ex_defs run_defs)

text \<open>
  C7, amended. A failed lookup of an issuer's key during chain verification ends the run:
  the callback gets the lookup's error, the lookup is made once, and \<^verbatim>\<open>verifyBundle\<close> is never
  continued. A failed lookup of the principal's domain is made once as well; the expected
  issuer is then \<^verbatim>\<open>args.fallback\<close>, and the run delivers the result when the fallback \<^verbatim>\<open>===\<close>
  the ultimate issuer and the untrusted-issuer error otherwise.
\<close>

theorem failed_lookup_outcome:
  "(lookup E a issuer (c_principalDomain c) = Inl err \<longrightarrow>
      chain (NeedKey issuer next) E a sched c
        = [Lookup issuer (c_principalDomain c), Callback (Inl err)])
   \<and>
   (truthy (assertion a) \<and> truthy (audience a) \<and>
    verifyBundle E (assertion a) (case now a of Some t \<Rightarrow> t | None \<Rightarrow> clock E)
      = NeedKey issuer next \<and>
    lookup E a issuer (u_principalDomain (unpack E (assertion a))) = Inl err \<longrightarrow>
      verify E a sched
        = [Lookup issuer (u_principalDomain (unpack E (assertion a))), Callback (Inl err)])
   \<and>
   (\<not> explicitly_trusted a u \<and> d \<noteq> [] \<and> lookup E a (JStr d) (Some d) = Inl err \<longrightarrow>
      verifyIssuer E a (Some d) u obj
        = [TrustResolution, Lookup (JStr d) (Some d),
           if strict_eq (fallback a) u then Callback (Inr obj)
           else Callback (Inl (untrusted_issuer_message E (fallback a) u))])"
  by (simp add: verifyIssuer_def expected_issuer_def verify_def Let_def)

text \<open>A directory that answers for no domain, and no fallback.\<close>

theorem failed_lookup_outcome_witness:
  "lookup (ex_single ex_idp_email None (\<lambda>domain. Inl ''lookup failed'')) (ex_args None JUndefined)
      (JStr ''idp.example'') (Some ''example.org'') = Inl ''lookup failed''
   \<and> chain (NeedKey (JStr ''idp.example'') (\<lambda>key. Finished (Inl ''unreachable'')))
        (ex_single ex_idp_email None (\<lambda>domain. Inl ''lookup failed'')) (ex_args None JUndefined) []
        (ex_ctx [])
     = [Lookup (JStr ''idp.example'') (Some ''example.org''), Callback (Inl ''lookup failed'')]
   \<and> verify (ex_single ex_idp_email None (\<lambda>domain. Inl ''lookup failed''))
        (ex_args None JUndefined) []
     = [Lookup (JStr ''idp.example'') (Some ''example.org''), Callback (Inl ''lookup failed'')]
   \<and> \<not> explicitly_trusted (ex_args None JUndefined) (JStr ''idp.example'')
   \<and> verifyIssuer (ex_single ex_idp_email None (\<lambda>domain. Inl ''lookup failed''))
        (ex_args None JUndefined) (Some ''example.org'') (JStr ''idp.example'') (ex_result None None)
     = [TrustResolution, Lookup (JStr ''example.org'') (Some ''example.org''),
        Callback (Inl (''untrusted issuer, expected '' @ quoted ''undefined'' @
                       '', got '' @ quoted ''idp.example''))]"
  using failed_lookup_outcome
    [of "ex_single ex_idp_email None (\<lambda>domain. Inl ''lookup failed'')" "ex_args None JUndefined"
        "JStr ''idp.example''" "ex_ctx []" "''lookup failed''"
        "\<lambda>key. Finished (Inl ''unreachable'')" "[]" "JStr ''idp.example''" "''example.org''"
        "ex_result None None"]
  by (simp add: ex_defs run_defs)

subsection \<open>The email of the result\<close>

lemma delivered_append: "delivered (xs @ ys) = delivered xs @ delivered ys"
  by (induction xs rule: delivered.induct) auto

lemma delivered_verifyIssuer:
  "res \<in> set (delivered (verifyIssuer E a pd u obj)) \<Longrightarrow> res = obj"
  by (auto simp: verifyIssuer_def Let_def split: option.splits if_splits)









subsection \<open>No state between calls\<close>

text \<open>
  The tables \<^verbatim>\<open>reservedClaimNames\<close> and \<^verbatim>\<open>DIGEST_ALGS\<close> are never assigned to, and
  \<^verbatim>\<open>verify\<close> writes to no object that it did not create. What a run reads beyond its
  arguments and its collaborators is the clock, and only when \<^verbatim>\<open>args.now\<close> is absent.
\<close>

lemma clock_verifyDigest: "verifyDigest (E\<lparr>clock := k\<rparr>) = verifyDigest E"
  by (simp add: fun_eq_iff verifyDigest_def DIGEST_ALGS_def cong: jsval.case_cong if_cong)

lemma clock_verifyAttributeCert: "verifyAttributeCert (E\<lparr>clock := k\<rparr>) = verifyAttributeCert E"
  by (simp add: fun_eq_iff verifyAttributeCert_def clock_verifyDigest cong: sum.case_cong if_cong)

lemma clock_format_s: "format_s (E\<lparr>clock := k\<rparr>) = format_s E"
  by (simp add: fun_eq_iff format_s_def cong: jsval.case_cong option.case_cong)

lemma clock_untrusted_issuer_message:
  "untrusted_issuer_message (E\<lparr>clock := k\<rparr>) = untrusted_issuer_message E"
  by (simp add: fun_eq_iff untrusted_issuer_message_def clock_format_s)

lemma clock_verifyIssuer: "verifyIssuer (E\<lparr>clock := k\<rparr>) = verifyIssuer E"
  by (simp add: fun_eq_iff verifyIssuer_def clock_untrusted_issuer_message
      cong: option.case_cong if_cong)

lemma clock_attrCertDone: "attrCertDone (E\<lparr>clock := k\<rparr>) = attrCertDone E"
  by (simp add: fun_eq_iff attrCertDone_def clock_verifyAttributeCert clock_verifyIssuer
      cong: sum.case_cong option.case_cong if_cong)

lemma clock_run_branches:
  "run_branches (E\<lparr>clock := k\<rparr>) a c jac sched obj = run_branches E a c jac sched obj"
  by (induction sched arbitrary: obj) (auto simp: clock_attrCertDone split: prod.splits option.splits)

lemma clock_finish: "finish (E\<lparr>clock := k\<rparr>) a sched c r = finish E a sched c r"
  by (simp add: finish_def clock_run_branches clock_verifyIssuer
      cong: sum.case_cong option.case_cong prod.case_cong if_cong jsval.case_cong)

lemma clock_chain: "chain t (E\<lparr>clock := k\<rparr>) a sched c = chain t E a sched c"
  by (induction t arbitrary: c) (auto simp: clock_finish split: sum.splits)

lemma clock_unpack: "unpack (E\<lparr>clock := k\<rparr>) = unpack E"
  by (simp add: fun_eq_iff unpack_def Let_def cong: option.case_cong)

text \<open>
  C9. Two runs of \<^verbatim>\<open>verify\<close> with the same arguments, among them an explicit \<^verbatim>\<open>now\<close>, the
  same collaborators and the same order of completion have the same trace, whatever the
  clock shows at either run.
\<close>

theorem verify_repeatable:
  "now a = Some t \<longrightarrow>
      verify (E\<lparr>clock := k1\<rparr>) a sched = verify (E\<lparr>clock := k2\<rparr>) a sched"
  by (simp add: verify_def clock_chain clock_unpack Let_def)

theorem verify_repeatable_witness:
  "now (ex_args None (JStr ''idp.example'')) = Some 500
   \<and> verify ((ex_single ex_idp_email None ex_lookup_ok)\<lparr>clock := 7\<rparr>)
        (ex_args None (JStr ''idp.example'')) []
     = [Lookup (JStr ''idp.example'') (Some ''example.org''), TrustResolution,
        Lookup (JStr ''example.org'') (Some ''example.org''),
        Callback (Inr (ex_result (Some (JStr ''bob@example.org'')) None))]
   \<and> verify ((ex_single ex_idp_email None ex_lookup_ok)\<lparr>clock := 900\<rparr>)
        (ex_args None (JStr ''idp.example'')) []
     = [Lookup (JStr ''idp.example'') (Some ''example.org''), TrustResolution,
        Lookup (JStr ''example.org'') (Some ''example.org''),
        Callback (Inr (ex_result (Some (JStr ''bob@example.org'')) None))]"
  using verify_repeatable
    [where a = "ex_args None (JStr ''idp.example'')" and t = 500
       and E = "ex_single ex_idp_email None ex_lookup_ok" and ?k1.0 = 7 and ?k2.0 = 900
       and sched = "[]"]
  by (simp add: ex_defs run_defs)

subsection \<open>Scopes\<close>

text \<open>
  C3. The claim: two attribute certificates with the same scope make \<^verbatim>\<open>verify\<close> fail with the
  collision error, whichever of them is valid. The code looks at the scope of a certificate
  only after \<^verbatim>\<open>verifyAttributeCert\<close> has accepted it: \<^verbatim>\<open>ac0\<close> and \<^verbatim>\<open>acx\<close> both carry the scope
  \<^verbatim>\<open>s\<close>, \<^verbatim>\<open>acx\<close> is not bound to the leaf certificate, and the run delivers the claims of
  \<^verbatim>\<open>ac0\<close> without any error.
\<close>

theorem same_scope_counterexample:
  "own [(''scope'', JStr ''s''), (''cdi'', ex_cdi ''H''), (''role'', JStr ''admin'')] ''scope''
     = own [(''scope'', JStr ''s''), (''cdi'', ex_cdi ''G''), (''role'', JStr ''root'')] ''scope''
   \<and> assertion_verify (ex_single ex_idp_email (Some [JStr ''ac0'', JStr ''acx'']) ex_lookup_ok)
        (JStr ''ac0'') (JStr ''PK'') 500
     = Inr [(''scope'', JStr ''s''), (''cdi'', ex_cdi ''H''), (''role'', JStr ''admin'')]
   \<and> assertion_verify (ex_single ex_idp_email (Some [JStr ''ac0'', JStr ''acx'']) ex_lookup_ok)
        (JStr ''acx'') (JStr ''PK'') 500
     = Inr [(''scope'', JStr ''s''), (''cdi'', ex_cdi ''G''), (''role'', JStr ''root'')]
   \<and> verify (ex_single ex_idp_email (Some [JStr ''ac0'', JStr ''acx'']) ex_lookup_ok)
        (ex_args (Some [JStr ''idp.example'']) JUndefined) [0, 1]
     = [Lookup (JStr ''idp.example'') (Some ''example.org''), BranchDone 0, BranchDone 1,
        TrustResolution,
        Callback (Inr (ex_result (Some (JStr ''bob@example.org''))
                         (Some [(''s'', [(''role'', JStr ''admin'')])])))]"
  by (simp add: ex_defs run_defs)

lemma attrCertDone_collision:
  assumes "verifyAttributeCert E (jac ! j) (c_now c) (c_ultimatePublicKey c) (c_leafCert c)
             (c_ultimateIssuer c) = Inr (Some q)"
    and "extractExtraClaims (Some q) = Inr (Some e)"
    and "to_string (own q ''scope'') = Some k"
    and "r_attributeCertClaims obj = Some st" and "map_of st k = Some v"
  shows "attrCertDone E a c jac j obj = ([Callback (Inl collision_message)], Some obj)"
  using assms by (simp add: attrCertDone_def arr_truthy_at_def)

lemma attrCertDone_crash:
  "attrCertDone E a c jac i obj = (evs, None) \<Longrightarrow> evs = [Uncaught]"
  by (auto simp: attrCertDone_def Let_def split: sum.splits option.splits if_splits)

lemma attrCertDone_keeps_scope:
  assumes "attrCertDone E a c jac i obj = (evs, Some obj')"
    and "r_attributeCertClaims obj = Some st" and "map_of st k = Some v"
  shows "\<exists>st' v'. r_attributeCertClaims obj' = Some st' \<and> map_of st' k = Some v'"
  using assms
  by (auto simp: attrCertDone_def Let_def aggregateAttrCertClaims_def arr_set_at_def update_conv'
      split: sum.splits option.splits if_splits)

lemma attrCertDone_keeps_store:
  assumes "attrCertDone E a c jac i obj = (evs, Some obj')"
    and "r_attributeCertClaims obj = Some st"
  shows "\<exists>st'. r_attributeCertClaims obj' = Some st'"
  using assms
  by (auto simp: attrCertDone_def Let_def aggregateAttrCertClaims_def arr_set_at_def
      split: sum.splits option.splits if_splits)

lemma proto_is_member: "arr_truthy_at st ''__proto__''"
  by (simp add: arr_truthy_at_def array_prototype_names_def object_prototype_names_def
      split: option.splits)

lemma attrCertDone_first:
  assumes "verifyAttributeCert E (jac ! i) (c_now c) (c_ultimatePublicKey c) (c_leafCert c)
             (c_ultimateIssuer c) = Inr (Some p)"
    and "extractExtraClaims (Some p) = Inr (Some e)"
    and "to_string (own p ''scope'') = Some k"
    and "\<not> aggregateAttrCertClaims_opt a"
    and "r_attributeCertClaims obj = Some st"
    and "attrCertDone E a c jac i obj = (evs, r)"
  shows "Callback (Inl collision_message) \<in> set evs \<or> r = None \<or>
         (\<exists>obj' st' v. r = Some obj' \<and> r_attributeCertClaims obj' = Some st' \<and> map_of st' k = Some v)"
proof (cases "arr_truthy_at st k")
  case True
  then show ?thesis using assms by (auto simp: attrCertDone_def)
next
  case False
  then have k: "k \<noteq> ''__proto__''" using proto_is_member by auto
  show ?thesis
    using assms False k
    by (auto simp: attrCertDone_def Let_def arr_set_at_def update_conv' split: if_splits)
qed

lemma collision_when_stored:
  assumes "verifyAttributeCert E (jac ! j) (c_now c) (c_ultimatePublicKey c) (c_leafCert c)
             (c_ultimateIssuer c) = Inr (Some q)"
    and "extractExtraClaims (Some q) = Inr (Some e)"
    and "to_string (own q ''scope'') = Some k"
    and "j < length jac"
  shows "j \<in> set sched \<Longrightarrow> r_attributeCertClaims obj = Some st \<Longrightarrow> map_of st k = Some v \<Longrightarrow>
         Uncaught \<notin> set (run_branches E a c jac sched obj) \<Longrightarrow>
         Callback (Inl collision_message) \<in> set (run_branches E a c jac sched obj)"
proof (induction sched arbitrary: obj st v)
  case Nil
  then show ?case by simp
next
  case (Cons h rest)
  show ?case
  proof (cases "h = j")
    case True
    then show ?thesis
      using assms(4) attrCertDone_collision[OF assms(1-3) Cons.prems(2,3), of a] by simp
  next
    case False
    then have jr: "j \<in> set rest" using Cons.prems(1) by simp
    show ?thesis
    proof (cases "h < length jac")
      case False
      then show ?thesis using Cons.IH[OF jr Cons.prems(2,3)] Cons.prems(4) by simp
    next
      case True
      obtain evs r where h: "attrCertDone E a c jac h obj = (evs, r)"
        by (cases "attrCertDone E a c jac h obj")
      show ?thesis
      proof (cases r)
        case None
        then have "evs = [Uncaught]" using h attrCertDone_crash by blast
        then show ?thesis using Cons.prems(4) True h None by simp
      next
        case (Some obj')
        then obtain st' v' where s: "r_attributeCertClaims obj' = Some st'" "map_of st' k = Some v'"
          using attrCertDone_keeps_scope[OF _ Cons.prems(2,3)] h by blast
        have "Uncaught \<notin> set (run_branches E a c jac rest obj')"
          using Cons.prems(4) True h Some by simp
        from Cons.IH[OF jr s this] show ?thesis using True h Some by simp
      qed
    qed
  qed
qed

text \<open>
  C3, amended. Take two attribute certificates of one assertion that \<^verbatim>\<open>verifyAttributeCert\<close>
  accepts, that both have extra claims, and whose scopes are the same property key, and let
  the claims be stored by scope (\<^verbatim>\<open>args.aggregateAttrCertClaims\<close> is off). Then in every
  order of completion in which no callback throws, the caller's callback is called with
  the collision error.
\<close>

theorem same_scope_collision:
  "\<not> aggregateAttrCertClaims_opt a \<and>
   i < length jac \<and> j < length jac \<and> i \<noteq> j \<and> i \<in> set sched \<and> j \<in> set sched \<and>
   verifyAttributeCert E (jac ! i) (c_now c) (c_ultimatePublicKey c) (c_leafCert c)
     (c_ultimateIssuer c) = Inr (Some p) \<and>
   verifyAttributeCert E (jac ! j) (c_now c) (c_ultimatePublicKey c) (c_leafCert c)
     (c_ultimateIssuer c) = Inr (Some q) \<and>
   extractExtraClaims (Some p) = Inr (Some e1) \<and>
   extractExtraClaims (Some q) = Inr (Some e2) \<and>
   to_string (own p ''scope'') = Some k \<and> to_string (own q ''scope'') = Some k \<and>
   r_attributeCertClaims obj = Some st \<and>
   Uncaught \<notin> set (run_branches E a c jac sched obj)
   \<longrightarrow> Callback (Inl collision_message) \<in> set (run_branches E a c jac sched obj)"
proof
  assume H: "\<not> aggregateAttrCertClaims_opt a \<and>
   i < length jac \<and> j < length jac \<and> i \<noteq> j \<and> i \<in> set sched \<and> j \<in> set sched \<and>
   verifyAttributeCert E (jac ! i) (c_now c) (c_ultimatePublicKey c) (c_leafCert c)
     (c_ultimateIssuer c) = Inr (Some p) \<and>
   verifyAttributeCert E (jac ! j) (c_now c) (c_ultimatePublicKey c) (c_leafCert c)
     (c_ultimateIssuer c) = Inr (Some q) \<and>
   extractExtraClaims (Some p) = Inr (Some e1) \<and>
   extractExtraClaims (Some q) = Inr (Some e2) \<and>
   to_string (own p ''scope'') = Some k \<and> to_string (own q ''scope'') = Some k \<and>
   r_attributeCertClaims obj = Some st \<and>
   Uncaught \<notin> set (run_branches E a c jac sched obj)"
  then have na: "\<not> aggregateAttrCertClaims_opt a" and il: "i < length jac" and jl: "j < length jac"
    and ne: "i \<noteq> j"
    and vi: "verifyAttributeCert E (jac ! i) (c_now c) (c_ultimatePublicKey c) (c_leafCert c)
     (c_ultimateIssuer c) = Inr (Some p)"
    and vj: "verifyAttributeCert E (jac ! j) (c_now c) (c_ultimatePublicKey c) (c_leafCert c)
     (c_ultimateIssuer c) = Inr (Some q)"
    and xi: "extractExtraClaims (Some p) = Inr (Some e1)"
    and xj: "extractExtraClaims (Some q) = Inr (Some e2)"
    and ki: "to_string (own p ''scope'') = Some k" and kj: "to_string (own q ''scope'') = Some k"
    by auto
  have main: "i \<in> set sched \<Longrightarrow> j \<in> set sched \<Longrightarrow> r_attributeCertClaims obj = Some st \<Longrightarrow>
      Uncaught \<notin> set (run_branches E a c jac sched obj) \<Longrightarrow>
      Callback (Inl collision_message) \<in> set (run_branches E a c jac sched obj)"
    for sched obj st
  proof (induction sched arbitrary: obj st)
    case Nil
    then show ?case by simp
  next
    case (Cons h rest)
    show ?case
    proof (cases "h < length jac")
      case False
      then have "i \<in> set rest" "j \<in> set rest" using Cons.prems(1,2) il jl by auto
      from Cons.IH[OF this Cons.prems(3)] show ?thesis using False Cons.prems(4) by simp
    next
      case True
      obtain evs r where h: "attrCertDone E a c jac h obj = (evs, r)"
        by (cases "attrCertDone E a c jac h obj")
      have tr: "run_branches E a c jac (h # rest) obj =
          BranchDone h # (case r of None \<Rightarrow> evs | Some obj' \<Rightarrow> evs @ run_branches E a c jac rest obj')"
        using True h by (simp split: option.splits)
      show ?thesis
      proof (cases r)
        case None
        then have "evs = [Uncaught]" using h attrCertDone_crash by blast
        then show ?thesis using Cons.prems(4) tr None by simp
      next
        case (Some obj')
        have nu: "Uncaught \<notin> set (run_branches E a c jac rest obj')"
          using Cons.prems(4) tr Some by simp
        consider (i) "h = i" | (j) "h = j" | (other) "h \<noteq> i" "h \<noteq> j" by blast
        then show ?thesis
        proof cases
          case i
          then have jr: "j \<in> set rest" using Cons.prems(2) ne by auto
          from attrCertDone_first[OF vi xi ki na Cons.prems(3) h[unfolded i]] Some
          consider "Callback (Inl collision_message) \<in> set evs"
            | st' v where "r_attributeCertClaims obj' = Some st'" "map_of st' k = Some v"
            by auto
          then show ?thesis
          proof cases
            case 1
            then show ?thesis using tr Some by simp
          next
            case 2
            from collision_when_stored[OF vj xj kj jl jr 2 nu] show ?thesis using tr Some by simp
          qed
        next
          case j
          then have ir: "i \<in> set rest" using Cons.prems(1) ne by auto
          from attrCertDone_first[OF vj xj kj na Cons.prems(3) h[unfolded j]] Some
          consider "Callback (Inl collision_message) \<in> set evs"
            | st' v where "r_attributeCertClaims obj' = Some st'" "map_of st' k = Some v"
            by auto
          then show ?thesis
          proof cases
            case 1
            then show ?thesis using tr Some by simp
          next
            case 2
            from collision_when_stored[OF vi xi ki il ir 2 nu] show ?thesis using tr Some by simp
          qed
        next
          case other
          then have r: "i \<in> set rest" "j \<in> set rest" using Cons.prems(1,2) by auto
          obtain st' where "r_attributeCertClaims obj' = Some st'"
            using attrCertDone_keeps_store[OF _ Cons.prems(3)] h Some by blast
          from Cons.IH[OF r this nu] show ?thesis using tr Some by simp
        qed
      qed
    qed
  qed
  from H show "Callback (Inl collision_message) \<in> set (run_branches E a c jac sched obj)"
    by (intro main[of sched obj st]) auto
qed

text \<open>The certificates \<^verbatim>\<open>ac0\<close> and \<^verbatim>\<open>ac1\<close>, both accepted, both of scope \<^verbatim>\<open>s\<close>.\<close>

theorem same_scope_collision_witness:
  "\<not> aggregateAttrCertClaims_opt (ex_args (Some [JStr ''idp.example'']) JUndefined)
   \<and> verifyAttributeCert (ex_single ex_idp_email (Some [JStr ''ac0'', JStr ''ac2'', JStr ''ac1'']) ex_lookup_ok)
       (JStr ''ac0'') 500 (JStr ''PK'') (JStr ''cert'') (JStr ''idp.example'')
     = Inr (Some [(''scope'', JStr ''s''), (''cdi'', ex_cdi ''H''), (''role'', JStr ''admin'')])
   \<and> verifyAttributeCert (ex_single ex_idp_email (Some [JStr ''ac0'', JStr ''ac2'', JStr ''ac1'']) ex_lookup_ok)
       (JStr ''ac1'') 500 (JStr ''PK'') (JStr ''cert'') (JStr ''idp.example'')
     = Inr (Some [(''scope'', JStr ''s''), (''cdi'', ex_cdi ''H''), (''role'', JStr ''user'')])
   \<and> extractExtraClaims (Some [(''scope'', JStr ''s''), (''cdi'', ex_cdi ''H''), (''role'', JStr ''admin'')])
     = Inr (Some [(''role'', JStr ''admin'')])
   \<and> extractExtraClaims (Some [(''scope'', JStr ''s''), (''cdi'', ex_cdi ''H''), (''role'', JStr ''user'')])
     = Inr (Some [(''role'', JStr ''user'')])
   \<and> to_string (JStr ''s'') = Some ''s''
   \<and> run_branches (ex_single ex_idp_email (Some [JStr ''ac0'', JStr ''ac2'', JStr ''ac1'']) ex_lookup_ok)
        (ex_args (Some [JStr ''idp.example'']) JUndefined)
        (ex_ctx [JStr ''ac0'', JStr ''ac2'', JStr ''ac1''])
        [JStr ''ac0'', JStr ''ac2'', JStr ''ac1''] [0, 1, 2] (ex_result None (Some []))
     = [BranchDone 0, BranchDone 1, BranchDone 2, Callback (Inl collision_message)]"
  using same_scope_collision
    [of "ex_args (Some [JStr ''idp.example'']) JUndefined" 0
        "[JStr ''ac0'', JStr ''ac2'', JStr ''ac1'']" 2 "[0, 1, 2]"
        "ex_single ex_idp_email (Some [JStr ''ac0'', JStr ''ac2'', JStr ''ac1'']) ex_lookup_ok"
        "ex_ctx [JStr ''ac0'', JStr ''ac2'', JStr ''ac1'']"
        "[(''scope'', JStr ''s''), (''cdi'', ex_cdi ''H''), (''role'', JStr ''admin'')]"
        "[(''scope'', JStr ''s''), (''cdi'', ex_cdi ''H''), (''role'', JStr ''user'')]"
        "[(''role'', JStr ''admin'')]" "[(''role'', JStr ''user'')]" "''s''"
        "ex_result None (Some [])" "[]"]
  by (simp add: ex_defs run_defs)

subsection \<open>Where stored claims come from\<close>

lemma set_update_cases:
  "(k', v') \<in> set (AList.update k v st) \<Longrightarrow> (k', v') = (k, v) \<or> (k', v') \<in> set st"
  by (induction st) (auto split: if_splits)

lemma attrCertDone_store_origin:
  assumes "attrCertDone E a c jac i obj = (evs, r)"
    and "\<not> aggregateAttrCertClaims_opt a" and "i < length jac"
    and "r_attributeCertClaims obj = Some st"
    and "res \<in> set (delivered evs) \<or> r = Some res"
    and "r_attributeCertClaims res = Some st'" and "(k, v) \<in> set st'"
  shows "(k, v) \<in> set st \<or>
         (\<exists>p. verifyAttributeCert E (jac ! i) (c_now c) (c_ultimatePublicKey c) (c_leafCert c)
                (c_ultimateIssuer c) = Inr (Some p) \<and>
              extractExtraClaims (Some p) = Inr (Some v) \<and>
              to_string (own p ''scope'') = Some k)"
  using assms
  by (auto simp: attrCertDone_def Let_def arr_set_at_def
      split: sum.splits option.splits if_splits
      dest!: delivered_verifyIssuer set_update_cases)


lemma run_branches_store_origin:
  assumes na: "\<not> aggregateAttrCertClaims_opt a"
  shows "r_attributeCertClaims obj = Some st \<Longrightarrow>
         res \<in> set (delivered (run_branches E a c jac sched obj)) \<Longrightarrow>
         r_attributeCertClaims res = Some st' \<Longrightarrow> (k, v) \<in> set st' \<Longrightarrow>
         (k, v) \<in> set st \<or>
         (\<exists>i p. i < length jac \<and>
              verifyAttributeCert E (jac ! i) (c_now c) (c_ultimatePublicKey c) (c_leafCert c)
                (c_ultimateIssuer c) = Inr (Some p) \<and>
              extractExtraClaims (Some p) = Inr (Some v) \<and>
              to_string (own p ''scope'') = Some k)"
proof (induction sched arbitrary: obj st)
  case Nil
  then show ?case by simp
next
  case (Cons h rest)
  show ?case
  proof (cases "h < length jac")
    case False
    then show ?thesis using Cons.IH[OF Cons.prems(1) _ Cons.prems(3,4)] Cons.prems(2) by simp
  next
    case True
    obtain evs r where h: "attrCertDone E a c jac h obj = (evs, r)"
      by (cases "attrCertDone E a c jac h obj")
    have tr: "run_branches E a c jac (h # rest) obj =
        BranchDone h # (case r of None \<Rightarrow> evs | Some obj' \<Rightarrow> evs @ run_branches E a c jac rest obj')"
      using True h by (simp split: option.splits)
    from Cons.prems(2) tr consider
        (now) "res \<in> set (delivered evs)"
      | (later) obj' where "r = Some obj'" "res \<in> set (delivered (run_branches E a c jac rest obj'))"
      by (auto simp: delivered_append split: option.splits)
    then show ?thesis
    proof cases
      case now
      from attrCertDone_store_origin[OF h na True Cons.prems(1) _ Cons.prems(3,4)] now
      show ?thesis using True by blast
    next
      case later
      obtain st1 where s1: "r_attributeCertClaims obj' = Some st1"
        using attrCertDone_keeps_store[OF _ Cons.prems(1)] h later(1) by blast
      from Cons.IH[OF s1 later(2) Cons.prems(3,4)] consider
          "(k, v) \<in> set st1"
        | "\<exists>i p. i < length jac \<and>
              verifyAttributeCert E (jac ! i) (c_now c) (c_ultimatePublicKey c) (c_leafCert c)
                (c_ultimateIssuer c) = Inr (Some p) \<and>
              extractExtraClaims (Some p) = Inr (Some v) \<and>
              to_string (own p ''scope'') = Some k"
        by blast
      then show ?thesis
      proof cases
        case 1
        from attrCertDone_store_origin[OF h na True Cons.prems(1) _ s1 1] later(1)
        show ?thesis using True by blast
      next
        case 2
        then show ?thesis by blast
      qed
    qed
  qed
qed

text \<open>
  With claims stored by scope, every entry of \<^verbatim>\<open>attributeCertClaims\<close> in a result that a run
  delivers is the extra claims of an attribute certificate of the assertion that
  \<^verbatim>\<open>verifyAttributeCert\<close> accepted, whose descriptor \<^verbatim>\<open>verifyDigest\<close> accepted for the leaf
  certificate, stored under that certificate's scope.
\<close>

theorem stored_claims_from_accepted_certificates:
  "\<not> aggregateAttrCertClaims_opt a \<and> r_attributeCertClaims obj = Some [] \<and>
   res \<in> set (delivered (run_branches E a c jac sched obj)) \<and>
   r_attributeCertClaims res = Some st \<and> (k, v) \<in> set st
   \<longrightarrow>
   (\<exists>i p. i < length jac \<and>
      verifyAttributeCert E (jac ! i) (c_now c) (c_ultimatePublicKey c) (c_leafCert c)
        (c_ultimateIssuer c) = Inr (Some p) \<and>
      verifyDigest E (c_leafCert c) (own p ''cdi'') = Inr (JBool True) \<and>
      extractExtraClaims (Some p) = Inr (Some v) \<and>
      to_string (own p ''scope'') = Some k)"
proof
  assume H: "\<not> aggregateAttrCertClaims_opt a \<and> r_attributeCertClaims obj = Some [] \<and>
   res \<in> set (delivered (run_branches E a c jac sched obj)) \<and>
   r_attributeCertClaims res = Some st \<and> (k, v) \<in> set st"
  then obtain i p where ip: "i < length jac"
      "verifyAttributeCert E (jac ! i) (c_now c) (c_ultimatePublicKey c) (c_leafCert c)
        (c_ultimateIssuer c) = Inr (Some p)"
      "extractExtraClaims (Some p) = Inr (Some v)" "to_string (own p ''scope'') = Some k"
    using run_branches_store_origin[of a obj "[]" res E c jac sched st k v] by auto
  from ip(2) have "verifyDigest E (c_leafCert c) (own p ''cdi'') = Inr (JBool True)"
    by (auto simp: verifyAttributeCert_def split: sum.splits if_splits dest: verifyDigest_truthy)
  with ip show "\<exists>i p. i < length jac \<and>
      verifyAttributeCert E (jac ! i) (c_now c) (c_ultimatePublicKey c) (c_leafCert c)
        (c_ultimateIssuer c) = Inr (Some p) \<and>
      verifyDigest E (c_leafCert c) (own p ''cdi'') = Inr (JBool True) \<and>
      extractExtraClaims (Some p) = Inr (Some v) \<and>
      to_string (own p ''scope'') = Some k"
    by blast
qed

theorem stored_claims_from_accepted_certificates_witness:
  "\<not> aggregateAttrCertClaims_opt (ex_args (Some [JStr ''idp.example'']) JUndefined)
   \<and> delivered (run_branches (ex_single ex_idp_email (Some [JStr ''acx'', JStr ''ac2'']) ex_lookup_ok)
        (ex_args (Some [JStr ''idp.example'']) JUndefined) (ex_ctx [JStr ''acx'', JStr ''ac2''])
        [JStr ''acx'', JStr ''ac2''] [0, 1] (ex_result None (Some [])))
     = [ex_result None (Some [(''t'', [(''team'', JStr ''x'')])])]
   \<and> verifyAttributeCert (ex_single ex_idp_email (Some [JStr ''acx'', JStr ''ac2'']) ex_lookup_ok)
        (JStr ''ac2'') 500 (JStr ''PK'') (JStr ''cert'') (JStr ''idp.example'')
     = Inr (Some [(''scope'', JStr ''t''), (''cdi'', ex_cdi ''H''), (''team'', JStr ''x'')])"
  using stored_claims_from_accepted_certificates
    [of "ex_args (Some [JStr ''idp.example'']) JUndefined" "ex_result None (Some [])"
        "ex_result None (Some [(''t'', [(''team'', JStr ''x'')])])"
        "ex_single ex_idp_email (Some [JStr ''acx'', JStr ''ac2'']) ex_lookup_ok"
        "ex_ctx [JStr ''acx'', JStr ''ac2'']" "[JStr ''acx'', JStr ''ac2'']" "[0, 1]"
        "[(''t'', [(''team'', JStr ''x'')])]" "''t''" "[(''team'', JStr ''x'')]"]
  by (simp add: ex_defs run_defs)

subsection \<open>Completion of the attribute certificates\<close>

text \<open>
  C2. The claim: with one or more attribute certificates, trust resolution and the caller's
  callback are invoked exactly once, after every certificate has completed, in any order of
  completion. The code starts trust resolution when the certificate at the last index
  completes, and goes on after a scope collision has been reported. In the first run the
  certificates \<^verbatim>\<open>ac0\<close>, \<^verbatim>\<open>ac1\<close>, \<^verbatim>\<open>ac2\<close> complete in their order: the callback gets the
  collision error of \<^verbatim>\<open>ac1\<close> and then, from trust resolution, a result. In the second run
  the certificate at the last index completes first: trust resolution runs and the result is
  delivered, without the claims of \<^verbatim>\<open>ac0\<close>, while \<^verbatim>\<open>ac0\<close> is still being verified.
\<close>

theorem callback_twice_and_before_completion:
  "verify (ex_single ex_idp_email (Some [JStr ''ac0'', JStr ''ac1'', JStr ''ac2'']) ex_lookup_ok)
      (ex_args (Some [JStr ''idp.example'']) JUndefined) [0, 1, 2]
     = [Lookup (JStr ''idp.example'') (Some ''example.org''), BranchDone 0, BranchDone 1,
        Callback (Inl collision_message), BranchDone 2, TrustResolution,
        Callback (Inr (ex_result (Some (JStr ''bob@example.org''))
                         (Some [(''s'', [(''role'', JStr ''admin'')]),
                                (''t'', [(''team'', JStr ''x'')])])))]
   \<and> verify (ex_single ex_idp_email (Some [JStr ''ac0'', JStr ''ac2'']) ex_lookup_ok)
      (ex_args (Some [JStr ''idp.example'']) JUndefined) [1, 0]
     = [Lookup (JStr ''idp.example'') (Some ''example.org''), BranchDone 1, TrustResolution,
        Callback (Inr (ex_result (Some (JStr ''bob@example.org''))
                         (Some [(''t'', [(''team'', JStr ''x'')])]))),
        BranchDone 0]"
  by (simp add: ex_defs run_defs collision_message_def)

end
